theory Spec2Isabelle
  imports Main "HOL-Library.Sublist" "HOL-Library.AList"
begin

section \<open>JSON values and the encoding/json boundary\<close>

text \<open>
  The server never looks inside JSON text itself: it hands bytes to Go's
  \<^verbatim>\<open>encoding/json\<close> and works on what comes back.  A JSON document is therefore
  modelled as a value of \<open>json\<close>.  Integer literals are kept as integers, every
  other number literal keeps its text, so that the string \<open>"1"\<close>, the integer \<open>1\<close>
  and the number \<open>1.0\<close> stay three different values.

  A \<^verbatim>\<open>json.RawMessage\<close> is the undecoded text of one JSON value, or nil; it is
  modelled as \<open>json option\<close> with \<open>None\<close> for nil.
\<close>

datatype json =
    JNull
  | JBool bool
  | JInt int
  | JReal string
  | JStr string
  | JArr "json list"
  | JObj "(string \<times> json) list"

type_synonym RawMessage = "json option"

text \<open>
  The two byte-level services of \<^verbatim>\<open>encoding/json\<close> are parameters of the model:
  \<open>parse\<close> is the syntax check and scan of a byte string (\<open>None\<close> for invalid
  JSON), used where the code looks at the bytes of an input line itself; \<open>render\<close> is
  the text \<^verbatim>\<open>json.Marshal\<close> produces for a value, used where the code stores that
  text in a string.  Every general theorem below holds for all such functions.
\<close>

record Codec =
  parse :: "string \<Rightarrow> json option"
  render :: "json \<Rightarrow> string"

section \<open>Message types (internal/mcp/types.go)\<close>

record Request =
  req_JSONRPC :: string
  req_ID :: RawMessage
  req_Method :: string
  req_Params :: RawMessage

definition IsNotification :: "Request \<Rightarrow> bool" where
  "IsNotification r = (req_ID r = None)"

record Error =
  err_Code :: int
  err_Message :: string
  err_Data :: RawMessage

record Response =
  resp_JSONRPC :: string
  resp_ID :: RawMessage
  resp_Result :: RawMessage
  resp_Error :: "Error option"

definition NewResponse :: "RawMessage \<Rightarrow> RawMessage \<Rightarrow> Response" where
  "NewResponse rid result =
     \<lparr>resp_JSONRPC = ''2.0'', resp_ID = rid, resp_Result = result, resp_Error = None\<rparr>"

definition NewErrorResponse :: "RawMessage \<Rightarrow> Error \<Rightarrow> Response" where
  "NewErrorResponse rid e =
     \<lparr>resp_JSONRPC = ''2.0'', resp_ID = rid, resp_Result = None, resp_Error = Some e\<rparr>"

datatype ServerState = StateCreated | StateInitializing | StateOperating | StateShutdown

record ToolDefinition =
  def_Name :: string
  def_Description :: string
  def_InputSchema :: RawMessage

record ContentBlock =
  blk_Type :: string
  blk_Text :: string

record ToolResult =
  res_Content :: "ContentBlock list"
  res_IsError :: bool

record ToolCallParams =
  call_Name :: string
  call_Arguments :: RawMessage

record CancelParams =
  cancel_RequestID :: RawMessage
  cancel_Reason :: string

section \<open>Error codes and constructors (internal/mcp/errors.go)\<close>

definition CodeParseError :: int where "CodeParseError = - 32700"
definition CodeInvalidRequest :: int where "CodeInvalidRequest = - 32600"
definition CodeMethodNotFound :: int where "CodeMethodNotFound = - 32601"
definition CodeInvalidParams :: int where "CodeInvalidParams = - 32602"
definition CodeInternalError :: int where "CodeInternalError = - 32603"

definition NewParseError :: "string \<Rightarrow> Error" where
  "NewParseError msg = \<lparr>err_Code = CodeParseError, err_Message = msg, err_Data = None\<rparr>"

definition NewInvalidRequest :: "string \<Rightarrow> Error" where
  "NewInvalidRequest msg = \<lparr>err_Code = CodeInvalidRequest, err_Message = msg, err_Data = None\<rparr>"

definition NewMethodNotFound :: "string \<Rightarrow> Error" where
  "NewMethodNotFound method =
     \<lparr>err_Code = CodeMethodNotFound, err_Message = ''method not found: '' @ method,
      err_Data = None\<rparr>"

definition NewInvalidParams :: "string \<Rightarrow> Error" where
  "NewInvalidParams msg = \<lparr>err_Code = CodeInvalidParams, err_Message = msg, err_Data = None\<rparr>"

definition NewInternalError :: "string \<Rightarrow> Error" where
  "NewInternalError msg = \<lparr>err_Code = CodeInternalError, err_Message = msg, err_Data = None\<rparr>"

section \<open>What json.Marshal produces for the structs\<close>

text \<open>
  Field order and names follow the struct tags.  A field tagged \<^verbatim>\<open>omitempty\<close> is left
  out when it is nil; a nil \<^verbatim>\<open>RawMessage\<close> without that tag is written as \<open>null\<close>.
  \<^verbatim>\<open>json.Marshal\<close> returns an error only for values these structs cannot hold, so
  each function below returns \<open>Inr\<close>; the callers keep the error branch of the source.
  A nil slice, which Go writes as \<open>null\<close>, is not told apart from an empty one.
\<close>

definition rawOrNull :: "RawMessage \<Rightarrow> json" where
  "rawOrNull m = (case m of None \<Rightarrow> JNull | Some v \<Rightarrow> v)"

definition omitEmpty :: "string \<Rightarrow> json option \<Rightarrow> (string \<times> json) list" where
  "omitEmpty k m = (case m of None \<Rightarrow> [] | Some v \<Rightarrow> [(k, v)])"

definition jsonError :: "Error \<Rightarrow> json" where
  "jsonError e =
     JObj ([(''code'', JInt (err_Code e)), (''message'', JStr (err_Message e))]
           @ omitEmpty ''data'' (err_Data e))"

definition jsonResponse :: "Response \<Rightarrow> json" where
  "jsonResponse r =
     JObj ([(''jsonrpc'', JStr (resp_JSONRPC r)), (''id'', rawOrNull (resp_ID r))]
           @ omitEmpty ''result'' (resp_Result r)
           @ omitEmpty ''error'' (map_option jsonError (resp_Error r)))"

definition jsonContentBlock :: "ContentBlock \<Rightarrow> json" where
  "jsonContentBlock b = JObj [(''type'', JStr (blk_Type b)), (''text'', JStr (blk_Text b))]"

definition jsonToolResult :: "ToolResult option \<Rightarrow> json" where
  "jsonToolResult r =
     (case r of
        None \<Rightarrow> JNull
      | Some t \<Rightarrow> JObj [(''content'', JArr (map jsonContentBlock (res_Content t))),
                        (''isError'', JBool (res_IsError t))])"

definition jsonToolDefinition :: "ToolDefinition \<Rightarrow> json" where
  "jsonToolDefinition d =
     JObj [(''name'', JStr (def_Name d)), (''description'', JStr (def_Description d)),
           (''inputSchema'', rawOrNull (def_InputSchema d))]"

definition jsonInitializeResult :: json where
  "jsonInitializeResult =
     JObj [(''protocolVersion'', JStr ''2025-03-26''),
           (''capabilities'', JObj [(''tools'', JObj []), (''logging'', JObj [])]),
           (''serverInfo'', JObj [(''name'', JStr ''bossman''), (''version'', JStr ''0.1.0'')])]"

definition MarshalInitializeResult :: "string + json" where
  "MarshalInitializeResult = Inr jsonInitializeResult"

definition MarshalToolsList :: "ToolDefinition list \<Rightarrow> string + json" where
  "MarshalToolsList tools = Inr (JObj [(''tools'', JArr (map jsonToolDefinition tools))])"

definition MarshalToolResult :: "ToolResult option \<Rightarrow> string + json" where
  "MarshalToolResult r = Inr (jsonToolResult r)"

section \<open>What json.Unmarshal stores into the structs\<close>

text \<open>
  Decoding an object visits its members in order; a later member with the same name
  overwrites an earlier one and an unknown name is skipped.  A \<^verbatim>\<open>string\<close> field
  accepts a JSON string, is left alone by \<open>null\<close> and rejects everything else.  A
  \<^verbatim>\<open>json.RawMessage\<close> field receives the text of whatever value is there, and that
  includes \<open>null\<close>: the field then holds the four bytes \<^verbatim>\<open>null\<close> and is not nil.
  \<open>null\<close> in place of the whole struct stores nothing.

  A member goes to the field whose name is the member's name or, when there is none,
  to the field whose name equals it once case is ignored: the decoder looks the
  member's name up after \<^verbatim>\<open>foldName\<close>, which is Unicode simple case folding.  The
  field names of these structs are ASCII, and no two of them are equal when case is
  ignored, so a member belongs to a field exactly when both names fold to the same
  text.  Folding maps the letters \<open>a\<close> to \<open>z\<close> to capitals; the only two characters
  outside ASCII that fold to an ASCII letter are U+017F (long s, the bytes C5 BF),
  which folds to \<open>S\<close>, and U+212A (the Kelvin sign, the bytes E2 84 AA), which folds
  to \<open>K\<close>.  Every other character outside ASCII folds to a character outside ASCII;
  its bytes are left as they are here, which no folded field name contains.
\<close>

definition upperCase :: "char \<Rightarrow> char" where
  "upperCase c =
     (case map_of (zip ''abcdefghijklmnopqrstuvwxyz'' ''ABCDEFGHIJKLMNOPQRSTUVWXYZ'') c of
        Some u \<Rightarrow> u
      | None \<Rightarrow> c)"

fun foldName :: "string \<Rightarrow> string" where
  "foldName [] = []"
| "foldName (c # cs) =
     (if c = CHR 0xC5 \<and> take 1 cs = [CHR 0xBF] then CHR ''S'' # foldName (drop 1 cs)
      else if c = CHR 0xE2 \<and> take 2 cs = [CHR 0x84, CHR 0xAA] then
        CHR ''K'' # foldName (drop 2 cs)
      else upperCase c # foldName cs)"

text \<open>\<open>named f k\<close>: the member name \<open>k\<close> selects the field tagged \<open>f\<close>.\<close>

definition named :: "string \<Rightarrow> string \<Rightarrow> bool" where
  "named field k = (foldName k = foldName field)"

definition typeMismatch :: "string \<Rightarrow> string" where
  "typeMismatch field = ''json: cannot unmarshal into Go struct field '' @ field"

definition zeroRequest :: Request where
  "zeroRequest = \<lparr>req_JSONRPC = [], req_ID = None, req_Method = [], req_Params = None\<rparr>"

fun decodeRequest :: "(string \<times> json) list \<Rightarrow> Request \<Rightarrow> string + Request" where
  "decodeRequest [] r = Inr r"
| "decodeRequest ((k, v) # ms) r =
     (if named ''jsonrpc'' k then
        (case v of
           JStr s \<Rightarrow> decodeRequest ms (r\<lparr>req_JSONRPC := s\<rparr>)
         | JNull \<Rightarrow> decodeRequest ms r
         | _ \<Rightarrow> Inl (typeMismatch ''Request.jsonrpc''))
      else if named ''id'' k then decodeRequest ms (r\<lparr>req_ID := Some v\<rparr>)
      else if named ''method'' k then
        (case v of
           JStr s \<Rightarrow> decodeRequest ms (r\<lparr>req_Method := s\<rparr>)
         | JNull \<Rightarrow> decodeRequest ms r
         | _ \<Rightarrow> Inl (typeMismatch ''Request.method''))
      else if named ''params'' k then decodeRequest ms (r\<lparr>req_Params := Some v\<rparr>)
      else decodeRequest ms r)"

definition unmarshalRequest :: "json \<Rightarrow> string + Request" where
  "unmarshalRequest j =
     (case j of
        JNull \<Rightarrow> Inr zeroRequest
      | JObj ms \<Rightarrow> decodeRequest ms zeroRequest
      | _ \<Rightarrow> Inl (typeMismatch ''Request''))"

fun unmarshalRequests :: "json list \<Rightarrow> string + Request list" where
  "unmarshalRequests [] = Inr []"
| "unmarshalRequests (j # js) =
     (case unmarshalRequest j of
        Inl e \<Rightarrow> Inl e
      | Inr r \<Rightarrow> (case unmarshalRequests js of Inl e \<Rightarrow> Inl e | Inr rs \<Rightarrow> Inr (r # rs)))"

definition unmarshalBatch :: "json \<Rightarrow> string + Request list" where
  "unmarshalBatch j =
     (case j of
        JNull \<Rightarrow> Inr []
      | JArr js \<Rightarrow> unmarshalRequests js
      | _ \<Rightarrow> Inl (typeMismatch ''[]Request''))"

definition zeroToolCallParams :: ToolCallParams where
  "zeroToolCallParams = \<lparr>call_Name = [], call_Arguments = None\<rparr>"

fun decodeToolCallParams ::
  "(string \<times> json) list \<Rightarrow> ToolCallParams \<Rightarrow> string + ToolCallParams" where
  "decodeToolCallParams [] p = Inr p"
| "decodeToolCallParams ((k, v) # ms) p =
     (if named ''name'' k then
        (case v of
           JStr s \<Rightarrow> decodeToolCallParams ms (p\<lparr>call_Name := s\<rparr>)
         | JNull \<Rightarrow> decodeToolCallParams ms p
         | _ \<Rightarrow> Inl (typeMismatch ''ToolCallParams.name''))
      else if named ''arguments'' k then decodeToolCallParams ms (p\<lparr>call_Arguments := Some v\<rparr>)
      else decodeToolCallParams ms p)"

text \<open>\<^verbatim>\<open>json.Unmarshal(req.Params, &params)\<close>: a nil \<^verbatim>\<open>RawMessage\<close> is empty input.\<close>

definition unexpectedEnd :: string where
  "unexpectedEnd = ''unexpected end of JSON input''"

definition unmarshalToolCallParams :: "RawMessage \<Rightarrow> string + ToolCallParams" where
  "unmarshalToolCallParams m =
     (case m of
        None \<Rightarrow> Inl unexpectedEnd
      | Some JNull \<Rightarrow> Inr zeroToolCallParams
      | Some (JObj ms) \<Rightarrow> decodeToolCallParams ms zeroToolCallParams
      | Some _ \<Rightarrow> Inl (typeMismatch ''ToolCallParams''))"

definition zeroCancelParams :: CancelParams where
  "zeroCancelParams = \<lparr>cancel_RequestID = None, cancel_Reason = []\<rparr>"

fun decodeCancelParams ::
  "(string \<times> json) list \<Rightarrow> CancelParams \<Rightarrow> string + CancelParams" where
  "decodeCancelParams [] p = Inr p"
| "decodeCancelParams ((k, v) # ms) p =
     (if named ''requestId'' k then decodeCancelParams ms (p\<lparr>cancel_RequestID := Some v\<rparr>)
      else if named ''reason'' k then
        (case v of
           JStr s \<Rightarrow> decodeCancelParams ms (p\<lparr>cancel_Reason := s\<rparr>)
         | JNull \<Rightarrow> decodeCancelParams ms p
         | _ \<Rightarrow> Inl (typeMismatch ''CancelParams.reason''))
      else decodeCancelParams ms p)"

definition unmarshalCancelParams :: "RawMessage \<Rightarrow> string + CancelParams" where
  "unmarshalCancelParams m =
     (case m of
        None \<Rightarrow> Inl unexpectedEnd
      | Some JNull \<Rightarrow> Inr zeroCancelParams
      | Some (JObj ms) \<Rightarrow> decodeCancelParams ms zeroCancelParams
      | Some _ \<Rightarrow> Inl (typeMismatch ''CancelParams''))"

section \<open>Transport (line framing over stdin and stdout)\<close>

text \<open>
  The \<^verbatim>\<open>bufio.Scanner\<close> is seen through the outcomes of its successive \<^verbatim>\<open>Scan\<close>
  calls: a call either delivers a line (\<open>Token\<close>) or returns false (\<open>Stop\<close>), and
  then \<^verbatim>\<open>Err\<close> is nil at a clean end of input (\<open>Stop None\<close>) or the stream's error
  (\<open>Stop (Some e)\<close>: a failed read, or \<^verbatim>\<open>bufio.ErrTooLong\<close> for a line over the
  1 MiB buffer).  Once the listed outcomes are used up the scanner stays in its
  \<open>final\<close> condition, as a stopped scanner does.
\<close>

datatype scan = Token string | Stop "string option"

record Scanner =
  upcoming :: "scan list"
  final :: "string option"

definition Scan :: "Scanner \<Rightarrow> scan \<times> Scanner" where
  "Scan sc =
     (case upcoming sc of
        [] \<Rightarrow> (Stop (final sc), sc)
      | x # xs \<Rightarrow> (x, sc\<lparr>upcoming := xs\<rparr>))"

text \<open>
  The \<^verbatim>\<open>io.Writer\<close>.  The server only ever writes the text \<^verbatim>\<open>json.Marshal\<close>
  produces for a value, followed by one newline; that text contains no newline, so
  each successful \<^verbatim>\<open>Write\<close> call is one line of output.  \<open>written\<close> lists the values
  of those lines, oldest first (no entry: no byte was written); \<open>room\<close> is how many
  more calls succeed (\<open>None\<close>: all of them).
\<close>

record Writer =
  written :: "json list"
  room :: "nat option"

definition Write :: "Writer \<Rightarrow> json \<Rightarrow> string option \<times> Writer" where
  "Write w data =
     (case room w of
        None \<Rightarrow> (None, w\<lparr>written := written w @ [data]\<rparr>)
      | Some 0 \<Rightarrow> (Some ''write: broken pipe'', w)
      | Some (Suc n) \<Rightarrow> (None, w\<lparr>written := written w @ [data], room := Some n\<rparr>))"

record Transport =
  scanner :: Scanner
  writer :: Writer

definition NewTransport :: "Scanner \<Rightarrow> Writer \<Rightarrow> Transport" where
  "NewTransport r w = \<lparr>scanner = r, writer = w\<rparr>"

text \<open>
  The errors \<^verbatim>\<open>ReadMessage\<close> returns.  In Go they are all values of type
  \<^verbatim>\<open>error\<close>; the constructors record where each one comes from: \<^verbatim>\<open>io.EOF\<close>, the
  scanner's error, an error of \<^verbatim>\<open>json.Unmarshal\<close>, and the parse error
  \<^verbatim>\<open>empty message\<close> built by \<^verbatim>\<open>ReadMessage\<close> itself.
\<close>

datatype read_error = EOF | ScanFailed string | UnmarshalFailed string | EmptyMessage

definition errorText :: "read_error \<Rightarrow> string" where
  "errorText e =
     (case e of
        EOF \<Rightarrow> ''EOF''
      | ScanFailed m \<Rightarrow> m
      | UnmarshalFailed m \<Rightarrow> m
      | EmptyMessage \<Rightarrow> ''empty message'')"

definition invalidJSON :: string where
  "invalidJSON = ''invalid character in JSON input''"

definition unmarshalAs :: "Codec \<Rightarrow> string \<Rightarrow> (json \<Rightarrow> string + 'a) \<Rightarrow> read_error + 'a" where
  "unmarshalAs J data decode =
     (case parse J data of
        None \<Rightarrow> Inl (UnmarshalFailed invalidJSON)
      | Some j \<Rightarrow> (case decode j of Inl e \<Rightarrow> Inl (UnmarshalFailed e) | Inr v \<Rightarrow> Inr v))"

definition isSpace :: "char \<Rightarrow> bool" where
  "isSpace b = (b = CHR '' '' \<or> b = CHR 0x09 \<or> b = CHR 0x0A \<or> b = CHR 0x0D)"

text \<open>The loop over the bytes of the line: \<open>bs\<close> is what is left to look at.\<close>

fun frame :: "Codec \<Rightarrow> string \<Rightarrow> string \<Rightarrow> read_error + Request list" where
  "frame J data [] = Inl EmptyMessage"
| "frame J data (b # bs) =
     (if isSpace b then frame J data bs
      else if b = CHR ''['' then unmarshalAs J data unmarshalBatch
      else (case unmarshalAs J data unmarshalRequest of
              Inl e \<Rightarrow> Inl e
            | Inr req \<Rightarrow> Inr [req]))"

definition ReadMessage :: "Codec \<Rightarrow> Transport \<Rightarrow> (read_error + Request list) \<times> Transport" where
  "ReadMessage J t =
     (case Scan (scanner t) of
        (Stop (Some e), sc) \<Rightarrow> (Inl (ScanFailed e), t\<lparr>scanner := sc\<rparr>)
      | (Stop None, sc) \<Rightarrow> (Inl EOF, t\<lparr>scanner := sc\<rparr>)
      | (Token data, sc) \<Rightarrow> (frame J data data, t\<lparr>scanner := sc\<rparr>))"

definition WriteResponse :: "Transport \<Rightarrow> Response \<Rightarrow> string option \<times> Transport" where
  "WriteResponse t resp =
     (case Write (writer t) (jsonResponse resp) of
        (e, w) \<Rightarrow> (e, t\<lparr>writer := w\<rparr>))"

definition WriteBatchResponse :: "Transport \<Rightarrow> Response list \<Rightarrow> string option \<times> Transport" where
  "WriteBatchResponse t responses =
     (case Write (writer t) (JArr (map jsonResponse responses)) of
        (e, w) \<Rightarrow> (e, t\<lparr>writer := w\<rparr>))"

section \<open>The tool handler boundary\<close>

text \<open>
  \<^verbatim>\<open>CallTool\<close> returns a pair \<^verbatim>\<open>(*ToolResult, error)\<close>; either component may be nil.
  A handler has state of its own (type \<open>'h\<close>), which a call may change.  The context
  argument is left out: it is cancelled only by the two places modelled below, and
  neither runs while a tool of the single-threaded loop is executing.
\<close>

type_synonym tool_outcome = "ToolResult option \<times> string option"

record 'h ToolHandler =
  ListTools :: "'h \<Rightarrow> ToolDefinition list"
  CallTool :: "'h \<Rightarrow> string \<Rightarrow> RawMessage \<Rightarrow> tool_outcome \<times> 'h"

section \<open>The server: lifecycle and dispatch\<close>

text \<open>
  The fields \<open>transport\<close>, \<open>handler\<close>, \<open>state\<close> and \<open>inflight\<close> are those of the Go
  struct; \<open>handler\<close> holds the handler's state, its two methods are passed alongside as
  a \<open>ToolHandler\<close>.  The keys of \<open>inflight\<close> are \<^verbatim>\<open>string(req.ID)\<close>, the bytes of a raw
  identifier.  Every \<^verbatim>\<open>context.WithCancel\<close> makes a new context, numbered from
  \<open>contexts\<close>; \<open>cancelled\<close> is the set of contexts whose cancel function has run.
  \<open>stateLog\<close> is a history variable: every assignment to \<open>state\<close> appends the value
  assigned, so it lists the values the state variable has taken, oldest first.
\<close>

record 'h Server =
  transport :: Transport
  handler :: 'h
  state :: ServerState
  inflight :: "RawMessage \<rightharpoonup> nat"
  cancelled :: "nat set"
  contexts :: nat
  stateLog :: "ServerState list"

definition setState :: "ServerState \<Rightarrow> 'h Server \<Rightarrow> 'h Server" where
  "setState v s = s\<lparr>state := v, stateLog := stateLog s @ [v]\<rparr>"

definition NewServer :: "Transport \<Rightarrow> 'h \<Rightarrow> 'h Server" where
  "NewServer t h =
     \<lparr>transport = t, handler = h, state = StateCreated, inflight = Map.empty,
      cancelled = {}, contexts = 0, stateLog = [StateCreated]\<rparr>"

definition handleInitialize :: "'h Server \<Rightarrow> Request \<Rightarrow> Response \<times> 'h Server" where
  "handleInitialize s req =
     (let s' = setState StateInitializing s in
      case MarshalInitializeResult of
        Inl e \<Rightarrow> (NewErrorResponse (req_ID req) (NewInternalError e), s')
      | Inr data \<Rightarrow> (NewResponse (req_ID req) (Some data), s'))"

definition handleToolsList :: "'h ToolHandler \<Rightarrow> 'h Server \<Rightarrow> Request \<Rightarrow> Response" where
  "handleToolsList H s req =
     (case MarshalToolsList (ListTools H (handler s)) of
        Inl e \<Rightarrow> NewErrorResponse (req_ID req) (NewInternalError e)
      | Inr data \<Rightarrow> NewResponse (req_ID req) (Some data))"

text \<open>
  \<^verbatim>\<open>handleToolsCall\<close> in the three parts the lock divides it into: registering the
  cancel function, unregistering it after the tool has returned, and building the
  response from what the tool returned.
\<close>

definition registerCall :: "RawMessage \<Rightarrow> 'h Server \<Rightarrow> nat \<times> 'h Server" where
  "registerCall key s =
     (contexts s, s\<lparr>inflight := (inflight s)(key \<mapsto> contexts s), contexts := Suc (contexts s)\<rparr>)"

definition releaseCall :: "RawMessage \<Rightarrow> nat \<Rightarrow> 'h Server \<Rightarrow> 'h Server" where
  "releaseCall key ctx s =
     s\<lparr>inflight := (inflight s)(key := None), cancelled := insert ctx (cancelled s)\<rparr>"

definition callResponse :: "Request \<Rightarrow> tool_outcome \<Rightarrow> Response" where
  "callResponse req out =
     (let result =
            (case snd out of
               Some err \<Rightarrow>
                 Some \<lparr>res_Content = [\<lparr>blk_Type = ''text'', blk_Text = err\<rparr>], res_IsError = True\<rparr>
             | None \<Rightarrow> fst out)
      in case MarshalToolResult result of
           Inl e \<Rightarrow> NewErrorResponse (req_ID req) (NewInternalError e)
         | Inr data \<Rightarrow> NewResponse (req_ID req) (Some data))"

definition handleToolsCall ::
  "'h ToolHandler \<Rightarrow> 'h Server \<Rightarrow> Request \<Rightarrow> Response \<times> 'h Server" where
  "handleToolsCall H s req =
     (case unmarshalToolCallParams (req_Params req) of
        Inl e \<Rightarrow> (NewErrorResponse (req_ID req) (NewInvalidParams e), s)
      | Inr params \<Rightarrow>
          (let key = req_ID req;
               (ctx, s1) = registerCall key s;
               (out, h) = CallTool H (handler s1) (call_Name params) (call_Arguments params);
               s2 = releaseCall key ctx (s1\<lparr>handler := h\<rparr>)
           in (callResponse req out, s2)))"

definition handleNotification :: "'h Server \<Rightarrow> Request \<Rightarrow> 'h Server" where
  "handleNotification s req =
     (if req_Method req = ''notifications/initialized'' then
        (if state s = StateInitializing then setState StateOperating s else s)
      else if req_Method req = ''notifications/cancelled'' then
        (case unmarshalCancelParams (req_Params req) of
           Inl e \<Rightarrow> s
         | Inr params \<Rightarrow>
             (let key = cancel_RequestID params in
              case inflight s key of
                Some ctx \<Rightarrow>
                  s\<lparr>cancelled := insert ctx (cancelled s), inflight := (inflight s)(key := None)\<rparr>
              | None \<Rightarrow> s))
      else s)"

definition dispatch ::
  "'h ToolHandler \<Rightarrow> 'h Server \<Rightarrow> Request \<Rightarrow> Response option \<times> 'h Server" where
  "dispatch H s req =
     (if IsNotification req then (None, handleNotification s req)
      else
        (let st = state s in
         if req_Method req = ''initialize'' then
           (if st \<noteq> StateCreated then
              (Some (NewErrorResponse (req_ID req) (NewInvalidRequest ''already initialized'')), s)
            else (case handleInitialize s req of (r, s') \<Rightarrow> (Some r, s')))
         else if req_Method req = ''ping'' then
           (Some (NewResponse (req_ID req) (Some (JObj []))), s)
         else if req_Method req = ''tools/list'' then
           (if st \<noteq> StateOperating then
              (Some (NewErrorResponse (req_ID req) (NewInvalidRequest ''server not initialized'')), s)
            else (Some (handleToolsList H s req), s))
         else if req_Method req = ''tools/call'' then
           (if st \<noteq> StateOperating then
              (Some (NewErrorResponse (req_ID req) (NewInvalidRequest ''server not initialized'')), s)
            else (case handleToolsCall H s req of (r, s') \<Rightarrow> (Some r, s')))
         else (Some (NewErrorResponse (req_ID req) (NewMethodNotFound (req_Method req))), s)))"

section \<open>The main loop\<close>

text \<open>The loop over a batch: the responses that are not nil, in order.\<close>

fun dispatchAll ::
  "'h ToolHandler \<Rightarrow> 'h Server \<Rightarrow> Request list \<Rightarrow> Response list \<times> 'h Server" where
  "dispatchAll H s [] = ([], s)"
| "dispatchAll H s (msg # msgs) =
     (case dispatch H s msg of
        (resp, s1) \<Rightarrow>
          (case dispatchAll H s1 msgs of
             (responses, s2) \<Rightarrow>
               ((case resp of None \<Rightarrow> responses | Some r \<Rightarrow> r # responses), s2)))"

text \<open>
  One pass through the body of the \<^verbatim>\<open>for\<close> loop of \<^verbatim>\<open>Run\<close>.  \<open>Returned e\<close> is
  \<^verbatim>\<open>return e\<close> (\<open>None\<close> for nil); \<open>Looping\<close> is reaching the end of the body or a
  \<^verbatim>\<open>continue\<close>.
\<close>

datatype run_exit = Returned "string option" | Looping

definition afterWrite :: "'h Server \<Rightarrow> string option \<times> Transport \<Rightarrow> run_exit \<times> 'h Server" where
  "afterWrite s w =
     (case w of
        (Some writeErr, t) \<Rightarrow> (Returned (Some writeErr), s\<lparr>transport := t\<rparr>)
      | (None, t) \<Rightarrow> (Looping, s\<lparr>transport := t\<rparr>))"

definition iteration :: "Codec \<Rightarrow> 'h ToolHandler \<Rightarrow> 'h Server \<Rightarrow> run_exit \<times> 'h Server" where
  "iteration J H s =
     (case ReadMessage J (transport s) of
        (res, t) \<Rightarrow>
          (let s0 = s\<lparr>transport := t\<rparr> in
           case res of
             Inl err \<Rightarrow>
               (if err = EOF then (Returned None, setState StateShutdown s0)
                else afterWrite s0
                       (WriteResponse (transport s0)
                          (NewErrorResponse None (NewParseError (errorText err)))))
           | Inr msgs \<Rightarrow>
               (if length msgs = 1 then
                  (case dispatch H s0 (msgs ! 0) of
                     (None, s1) \<Rightarrow> (Looping, s1)
                   | (Some resp, s1) \<Rightarrow> afterWrite s1 (WriteResponse (transport s1) resp))
                else
                  (case dispatchAll H s0 msgs of
                     (responses, s1) \<Rightarrow>
                       (if length responses > 0 then
                          afterWrite s1 (WriteBatchResponse (transport s1) responses)
                        else (Looping, s1))))))"

text \<open>
  \<^verbatim>\<open>Run\<close> may loop for ever, so it is given fuel: \<open>Run J H n s\<close> is the loop cut off
  after \<open>n\<close> passes.  \<open>Looping\<close> as a result means the loop has not returned within them.
\<close>

fun Run :: "Codec \<Rightarrow> 'h ToolHandler \<Rightarrow> nat \<Rightarrow> 'h Server \<Rightarrow> run_exit \<times> 'h Server" where
  "Run J H 0 s = (Looping, s)"
| "Run J H (Suc n) s =
     (case iteration J H s of
        (Returned e, s') \<Rightarrow> (Returned e, s')
      | (Looping, s') \<Rightarrow> Run J H n s')"

section \<open>The registry (the handler the server is started with)\<close>

text \<open>
  The Go map from tool names to tools is an association list with one entry for a
  name; \<open>map_of\<close> is the lookup.  The order of the entries stands for the order in
  which Go happens to iterate over the map.
\<close>

record 'db registeredTool =
  tool_def :: ToolDefinition
  tool_invoke :: "'db \<Rightarrow> RawMessage \<Rightarrow> tool_outcome \<times> 'db"

record 'db Registry =
  db :: 'db
  tools :: "(string \<times> 'db registeredTool) list"

definition register ::
  "ToolDefinition \<Rightarrow> ('db \<Rightarrow> RawMessage \<Rightarrow> tool_outcome \<times> 'db) \<Rightarrow> 'db Registry \<Rightarrow> 'db Registry" where
  "register d fn r =
     r\<lparr>tools := AList.update (def_Name d) \<lparr>tool_def = d, tool_invoke = fn\<rparr> (tools r)\<rparr>"

definition Registry_ListTools :: "'db Registry \<Rightarrow> ToolDefinition list" where
  "Registry_ListTools r = map (\<lambda>(name, t). tool_def t) (tools r)"

definition Registry_CallTool ::
  "'db Registry \<Rightarrow> string \<Rightarrow> RawMessage \<Rightarrow> tool_outcome \<times> 'db Registry" where
  "Registry_CallTool r name args =
     (case map_of (tools r) name of
        None \<Rightarrow> ((None, Some (''unknown tool: '' @ name)), r)
      | Some took \<Rightarrow>
          (case tool_invoke took (db r) args of (out, d) \<Rightarrow> (out, r\<lparr>db := d\<rparr>)))"

definition HasTool :: "'db Registry \<Rightarrow> string \<Rightarrow> bool" where
  "HasTool r name = (map_of (tools r) name \<noteq> None)"

definition RegistryHandler :: "'db Registry ToolHandler" where
  "RegistryHandler = \<lparr>ListTools = Registry_ListTools, CallTool = Registry_CallTool\<rparr>"

section \<open>Tasks and the create_task tool\<close>

record Task =
  task_ID :: string
  task_ParentID :: "string option"
  task_Description :: string
  task_Context :: string
  task_Priority :: int
  task_Status :: string
  task_Result :: "string option"
  task_CreatedAt :: string
  task_StartedAt :: "string option"
  task_CompletedAt :: "string option"
  task_UpdatedAt :: string

text \<open>
  What the tools act on: the rows of table \<^verbatim>\<open>tasks\<close>, the identifiers
  \<^verbatim>\<open>xid.New().String()\<close> will hand out (the \<open>issued\<close>-th is next), and the time
  SQLite's \<^verbatim>\<open>strftime(..., 'now')\<close> returns.
\<close>

record World =
  rows :: "Task list"
  xid :: "nat \<Rightarrow> string"
  issued :: nat
  now :: string

definition NewTaskID :: "World \<Rightarrow> string \<times> World" where
  "NewTaskID w = (''task_'' @ xid w (issued w), w\<lparr>issued := Suc (issued w)\<rparr>)"

text \<open>
  \<^verbatim>\<open>InsertTask\<close> runs
  \<^verbatim>\<open>INSERT INTO tasks (id, description, parent_id, priority, context) VALUES (...)\<close>
  against the schema of \<^verbatim>\<open>db.go\<close>: \<^verbatim>\<open>id\<close> is the primary key, \<^verbatim>\<open>parent_id\<close>
  references \<^verbatim>\<open>tasks(id)\<close> (foreign keys are switched on by \<^verbatim>\<open>InitDB\<close>),
  \<^verbatim>\<open>priority\<close> is checked to lie between 1 and 5, and the columns the statement does
  not name take their defaults.  A statement that breaks a constraint changes nothing
  and returns an error.  Failures of the database itself are not modelled.
\<close>

definition storedRow :: "World \<Rightarrow> Task \<Rightarrow> Task" where
  "storedRow w t =
     \<lparr>task_ID = task_ID t, task_ParentID = task_ParentID t,
      task_Description = task_Description t, task_Context = task_Context t,
      task_Priority = task_Priority t, task_Status = ''pending'', task_Result = None,
      task_CreatedAt = now w, task_StartedAt = None, task_CompletedAt = None,
      task_UpdatedAt = now w\<rparr>"

definition InsertTask :: "World \<Rightarrow> Task \<Rightarrow> string option \<times> World" where
  "InsertTask w t =
     (if task_ID t \<in> set (map task_ID (rows w)) then
        (Some ''UNIQUE constraint failed: tasks.id'', w)
      else if \<not> (case task_ParentID t of
                   None \<Rightarrow> True
                 | Some p \<Rightarrow> p = task_ID t \<or> p \<in> set (map task_ID (rows w))) then
        (Some ''FOREIGN KEY constraint failed'', w)
      else if \<not> (1 \<le> task_Priority t \<and> task_Priority t \<le> 5) then
        (Some ''CHECK constraint failed: priority BETWEEN 1 AND 5'', w)
      else (None, w\<lparr>rows := rows w @ [storedRow w t]\<rparr>))"

text \<open>
  The argument struct of \<^verbatim>\<open>createTask\<close>.  A pointer field is nil when its member
  is absent or \<open>null\<close>.  \<^verbatim>\<open>*int\<close> accepts an integer literal that fits 64 bits.
\<close>

record CreateTaskParams =
  ct_Description :: string
  ct_ParentID :: "string option"
  ct_Priority :: "int option"
  ct_Context :: "string option"

definition zeroCreateTaskParams :: CreateTaskParams where
  "zeroCreateTaskParams =
     \<lparr>ct_Description = [], ct_ParentID = None, ct_Priority = None, ct_Context = None\<rparr>"

definition fitsInt :: "int \<Rightarrow> bool" where
  "fitsInt i = (- (2 ^ 63) \<le> i \<and> i < 2 ^ 63)"

fun decodeCreateTaskParams ::
  "(string \<times> json) list \<Rightarrow> CreateTaskParams \<Rightarrow> string + CreateTaskParams" where
  "decodeCreateTaskParams [] p = Inr p"
| "decodeCreateTaskParams ((k, v) # ms) p =
     (if named ''description'' k then
        (case v of
           JStr s \<Rightarrow> decodeCreateTaskParams ms (p\<lparr>ct_Description := s\<rparr>)
         | JNull \<Rightarrow> decodeCreateTaskParams ms p
         | _ \<Rightarrow> Inl (typeMismatch ''description''))
      else if named ''parent_id'' k then
        (case v of
           JStr s \<Rightarrow> decodeCreateTaskParams ms (p\<lparr>ct_ParentID := Some s\<rparr>)
         | JNull \<Rightarrow> decodeCreateTaskParams ms (p\<lparr>ct_ParentID := None\<rparr>)
         | _ \<Rightarrow> Inl (typeMismatch ''parent_id''))
      else if named ''priority'' k then
        (case v of
           JInt i \<Rightarrow>
             (if fitsInt i then decodeCreateTaskParams ms (p\<lparr>ct_Priority := Some i\<rparr>)
              else Inl (typeMismatch ''priority''))
         | JNull \<Rightarrow> decodeCreateTaskParams ms (p\<lparr>ct_Priority := None\<rparr>)
         | _ \<Rightarrow> Inl (typeMismatch ''priority''))
      else if named ''context'' k then
        (case v of
           JStr s \<Rightarrow> decodeCreateTaskParams ms (p\<lparr>ct_Context := Some s\<rparr>)
         | JNull \<Rightarrow> decodeCreateTaskParams ms (p\<lparr>ct_Context := None\<rparr>)
         | _ \<Rightarrow> Inl (typeMismatch ''context''))
      else decodeCreateTaskParams ms p)"

definition unmarshalCreateTaskParams :: "RawMessage \<Rightarrow> string + CreateTaskParams" where
  "unmarshalCreateTaskParams m =
     (case m of
        None \<Rightarrow> Inl unexpectedEnd
      | Some JNull \<Rightarrow> Inr zeroCreateTaskParams
      | Some (JObj ms) \<Rightarrow> decodeCreateTaskParams ms zeroCreateTaskParams
      | Some _ \<Rightarrow> Inl (typeMismatch ''params''))"

text \<open>\<^verbatim>\<open>db.Task\<close> has no struct tags, so its members carry the Go field names.\<close>

definition jsonOptString :: "string option \<Rightarrow> json" where
  "jsonOptString m = (case m of None \<Rightarrow> JNull | Some s \<Rightarrow> JStr s)"

definition jsonTask :: "Task \<Rightarrow> json" where
  "jsonTask t =
     JObj [(''ID'', JStr (task_ID t)), (''ParentID'', jsonOptString (task_ParentID t)),
           (''Description'', JStr (task_Description t)), (''Context'', JStr (task_Context t)),
           (''Priority'', JInt (task_Priority t)), (''Status'', JStr (task_Status t)),
           (''Result'', jsonOptString (task_Result t)),
           (''CreatedAt'', JStr (task_CreatedAt t)),
           (''StartedAt'', jsonOptString (task_StartedAt t)),
           (''CompletedAt'', jsonOptString (task_CompletedAt t)),
           (''UpdatedAt'', JStr (task_UpdatedAt t))]"

definition MarshalTask :: "Task \<Rightarrow> string + json" where
  "MarshalTask t = Inr (jsonTask t)"

definition resultJSON :: "Codec \<Rightarrow> string + json \<Rightarrow> tool_outcome" where
  "resultJSON J marshalled =
     (case marshalled of
        Inl err \<Rightarrow> (None, Some err)
      | Inr data \<Rightarrow>
          (Some \<lparr>res_Content = [\<lparr>blk_Type = ''text'', blk_Text = render J data\<rparr>],
                 res_IsError = False\<rparr>, None))"

text \<open>
  The record \<^verbatim>\<open>createTask\<close> builds: first the struct literal (\<open>newTask\<close>), then
  the two optional fields of the arguments (\<open>buildTask\<close>).
\<close>

definition newTask :: "string \<Rightarrow> CreateTaskParams \<Rightarrow> Task" where
  "newTask ident params =
     \<lparr>task_ID = ident, task_ParentID = ct_ParentID params,
      task_Description = ct_Description params, task_Context = [],
      task_Priority = 3, task_Status = [], task_Result = None, task_CreatedAt = [],
      task_StartedAt = None, task_CompletedAt = None, task_UpdatedAt = []\<rparr>"

definition buildTask :: "string \<Rightarrow> CreateTaskParams \<Rightarrow> Task" where
  "buildTask ident params =
     (let task = newTask ident params;
          task = (case ct_Priority params of
                    Some p \<Rightarrow> task\<lparr>task_Priority := p\<rparr>
                  | None \<Rightarrow> task);
          task = (case ct_Context params of
                    Some c \<Rightarrow> task\<lparr>task_Context := c\<rparr>
                  | None \<Rightarrow> task)
      in task)"

definition createTask :: "Codec \<Rightarrow> World \<Rightarrow> RawMessage \<Rightarrow> tool_outcome \<times> World" where
  "createTask J w args =
     (case unmarshalCreateTaskParams args of
        Inl err \<Rightarrow> ((None, Some (''invalid arguments: '' @ err)), w)
      | Inr params \<Rightarrow>
          (case NewTaskID w of
             (ident, w1) \<Rightarrow>
               (let task = buildTask ident params
                in case InsertTask w1 task of
                     (Some err, w2) \<Rightarrow> ((None, Some (''insert task: '' @ err)), w2)
                   | (None, w2) \<Rightarrow> (resultJSON J (MarshalTask task), w2))))"

text \<open>
  \<^verbatim>\<open>GetTask\<close> runs \<^verbatim>\<open>SELECT * FROM tasks WHERE id = ?\<close> and scans the row into a
  \<^verbatim>\<open>Task\<close>; without a row it returns \<^verbatim>\<open>sql.ErrNoRows\<close>.  The tool \<^verbatim>\<open>getTask\<close>
  returns the task read; \<^verbatim>\<open>updateTask\<close> ends with the same read, to return the
  task as the table has it.
\<close>

definition ErrNoRows :: string where
  "ErrNoRows = ''sql: no rows in result set''"

definition GetTask :: "World \<Rightarrow> string \<Rightarrow> string + Task" where
  "GetTask w ident =
     (case find (\<lambda>t. task_ID t = ident) (rows w) of
        None \<Rightarrow> Inl ErrNoRows
      | Some t \<Rightarrow> Inr t)"

record GetTaskParams =
  gt_ID :: string

definition zeroGetTaskParams :: GetTaskParams where
  "zeroGetTaskParams = \<lparr>gt_ID = []\<rparr>"

fun decodeGetTaskParams ::
  "(string \<times> json) list \<Rightarrow> GetTaskParams \<Rightarrow> string + GetTaskParams" where
  "decodeGetTaskParams [] p = Inr p"
| "decodeGetTaskParams ((k, v) # ms) p =
     (if named ''id'' k then
        (case v of
           JStr s \<Rightarrow> decodeGetTaskParams ms (p\<lparr>gt_ID := s\<rparr>)
         | JNull \<Rightarrow> decodeGetTaskParams ms p
         | _ \<Rightarrow> Inl (typeMismatch ''id''))
      else decodeGetTaskParams ms p)"

definition unmarshalGetTaskParams :: "RawMessage \<Rightarrow> string + GetTaskParams" where
  "unmarshalGetTaskParams m =
     (case m of
        None \<Rightarrow> Inl unexpectedEnd
      | Some JNull \<Rightarrow> Inr zeroGetTaskParams
      | Some (JObj ms) \<Rightarrow> decodeGetTaskParams ms zeroGetTaskParams
      | Some _ \<Rightarrow> Inl (typeMismatch ''params''))"

definition getTask :: "Codec \<Rightarrow> World \<Rightarrow> RawMessage \<Rightarrow> tool_outcome \<times> World" where
  "getTask J w args =
     (case unmarshalGetTaskParams args of
        Inl err \<Rightarrow> ((None, Some (''invalid arguments: '' @ err)), w)
      | Inr params \<Rightarrow>
          (case GetTask w (gt_ID params) of
             Inl err \<Rightarrow>
               (if err = ErrNoRows then ((None, Some (''task not found: '' @ gt_ID params)), w)
                else ((None, Some (''get task: '' @ err)), w))
           | Inr task \<Rightarrow> (resultJSON J (MarshalTask task), w)))"

section \<open>A concrete session\<close>

text \<open>
  Input lines as a client sends them, and the values \<^verbatim>\<open>encoding/json\<close> reads from
  them.  \<open>sessionCodec\<close> knows these lines only; every other line is invalid for it.
\<close>

definition lineInitialize :: string where
  \<open>lineInitialize = ''{"jsonrpc":"2.0","id":1,"method":"initialize","params":{}}''\<close>

definition lineInitialized :: string where
  \<open>lineInitialized = ''{"jsonrpc":"2.0","method":"notifications/initialized"}''\<close>

definition lineCall7 :: string where
  \<open>lineCall7 = ''{"jsonrpc":"2.0","id":7,"method":"tools/call","params":{"name":"slow","arguments":{}}}''\<close>

definition lineCancel7 :: string where
  \<open>lineCancel7 = ''{"jsonrpc":"2.0","method":"notifications/cancelled","params":{"requestId":7}}''\<close>

definition lineCallNope :: string where
  \<open>lineCallNope = ''{"jsonrpc":"2.0","id":3,"method":"tools/call","params":{"name":"nope","arguments":{}}}''\<close>

definition linePingBatch :: string where
  \<open>linePingBatch = ''[{"jsonrpc":"2.0","id":1,"method":"ping"}]''\<close>

definition linePing :: string where
  \<open>linePing = ''{"jsonrpc":"2.0","id":1,"method":"ping"}''\<close>

definition linePingTag2 :: string where
  \<open>linePingTag2 = ''{"jsonrpc":2,"id":1,"method":"ping"}''\<close>

definition linePingNull :: string where
  \<open>linePingNull = ''{"jsonrpc":"2.0","id":null,"method":"ping"}''\<close>

definition lineListNull :: string where
  \<open>lineListNull = ''{"jsonrpc":"2.0","id":null,"method":"tools/list"}''\<close>

definition message :: "json option \<Rightarrow> string \<Rightarrow> json option \<Rightarrow> json" where
  "message ident method params =
     JObj ([(''jsonrpc'', JStr ''2.0'')] @ omitEmpty ''id'' ident
           @ [(''method'', JStr method)] @ omitEmpty ''params'' params)"

definition callEnvelope :: "string \<Rightarrow> json" where
  "callEnvelope name = JObj [(''name'', JStr name), (''arguments'', JObj [])]"

definition sessionParse :: "string \<Rightarrow> json option" where
  "sessionParse line =
     (if line = lineInitialize then Some (message (Some (JInt 1)) ''initialize'' (Some (JObj [])))
      else if line = lineInitialized then Some (message None ''notifications/initialized'' None)
      else if line = lineCall7 then
        Some (message (Some (JInt 7)) ''tools/call'' (Some (callEnvelope ''slow'')))
      else if line = lineCancel7 then
        Some (message None ''notifications/cancelled'' (Some (JObj [(''requestId'', JInt 7)])))
      else if line = lineCallNope then
        Some (message (Some (JInt 3)) ''tools/call'' (Some (callEnvelope ''nope'')))
      else if line = linePingBatch then Some (JArr [message (Some (JInt 1)) ''ping'' None])
      else if line = linePing then Some (message (Some (JInt 1)) ''ping'' None)
      else if line = linePingTag2 then
        Some (JObj [(''jsonrpc'', JInt 2), (''id'', JInt 1), (''method'', JStr ''ping'')])
      else if line = linePingNull then Some (message (Some JNull) ''ping'' None)
      else if line = lineListNull then Some (message (Some JNull) ''tools/list'' None)
      else None)"

text \<open>
  The text of a value, as \<^verbatim>\<open>json.Marshal\<close> writes it when no string needs an
  escape (none in this session does).
\<close>

fun showNat :: "nat \<Rightarrow> string" where
  "showNat n =
     (if n < 10 then [''0123456789'' ! n]
      else showNat (n div 10) @ [''0123456789'' ! (n mod 10)])"

definition showInt :: "int \<Rightarrow> string" where
  "showInt i = (if i < 0 then ''-'' @ showNat (nat (- i)) else showNat (nat i))"

definition quoted :: "string \<Rightarrow> string" where
  "quoted s = [CHR 0x22] @ s @ [CHR 0x22]"

fun commas :: "string list \<Rightarrow> string" where
  "commas [] = []"
| "commas [x] = x"
| "commas (x # y # ys) = x @ '','' @ commas (y # ys)"

fun showJson :: "json \<Rightarrow> string" where
  "showJson JNull = ''null''"
| "showJson (JBool b) = (if b then ''true'' else ''false'')"
| "showJson (JInt i) = showInt i"
| "showJson (JReal s) = s"
| "showJson (JStr s) = quoted s"
| "showJson (JArr xs) = ''['' @ commas (map showJson xs) @ '']''"
| "showJson (JObj ms) =
     ''{'' @ commas (map (\<lambda>(k, v). quoted k @ '':'' @ showJson v) ms) @ ''}''"

definition sessionCodec :: Codec where
  "sessionCodec = \<lparr>parse = sessionParse, render = showJson\<rparr>"

text \<open>A handler with one tool, \<open>slow\<close>, that runs to its end and reports success.\<close>

definition slowDone :: ToolResult where
  "slowDone = \<lparr>res_Content = [\<lparr>blk_Type = ''text'', blk_Text = ''done''\<rparr>], res_IsError = False\<rparr>"

definition slowHandler :: "unit ToolHandler" where
  "slowHandler =
     \<lparr>ListTools = (\<lambda>h. []),
      CallTool = (\<lambda>h name args.
        (if name = ''slow'' then (Some slowDone, None) else (None, Some ''no such tool''), h))\<rparr>"

definition stdio :: "string list \<Rightarrow> Transport" where
  "stdio lines =
     NewTransport \<lparr>upcoming = map Token lines, final = None\<rparr> \<lparr>written = [], room = None\<rparr>"

definition stdout :: "'h Server \<Rightarrow> json list" where
  "stdout s = written (writer (transport s))"

definition callRequest :: Request where
  "callRequest =
     \<lparr>req_JSONRPC = ''2.0'', req_ID = Some (JInt 7), req_Method = ''tools/call'',
      req_Params = Some (callEnvelope ''slow'')\<rparr>"

definition cancelRequest :: Request where
  "cancelRequest =
     \<lparr>req_JSONRPC = ''2.0'', req_ID = None, req_Method = ''notifications/cancelled'',
      req_Params = Some (JObj [(''requestId'', JInt 7)])\<rparr>"

definition nopeRequest :: Request where
  "nopeRequest =
     \<lparr>req_JSONRPC = ''2.0'', req_ID = Some (JInt 3), req_Method = ''tools/call'',
      req_Params = Some (callEnvelope ''nope'')\<rparr>"

definition pingRequest :: "json \<Rightarrow> Request" where
  "pingRequest ident =
     \<lparr>req_JSONRPC = ''2.0'', req_ID = Some ident, req_Method = ''ping'', req_Params = None\<rparr>"

text \<open>The server after the handshake, with the \<open>slow\<close> handler and with a registry.\<close>

definition handshake :: "string list" where
  "handshake = [lineInitialize, lineInitialized]"

definition operating :: "unit Server" where
  "operating = snd (Run sessionCodec slowHandler 2 (NewServer (stdio handshake) ()))"

definition morning :: World where
  "morning =
     \<lparr>rows = [], xid = (\<lambda>n. replicate (Suc n) CHR ''x''), issued = 0,
      now = ''2026-01-05T09:00:00.000Z''\<rparr>"

definition createTaskDefinition :: ToolDefinition where
  "createTaskDefinition =
     \<lparr>def_Name = ''create_task'', def_Description = ''Create a new task'',
      def_InputSchema = Some (JObj [(''type'', JStr ''object'')])\<rparr>"

definition taskRegistry :: "World Registry" where
  "taskRegistry =
     register createTaskDefinition (createTask sessionCodec) \<lparr>db = morning, tools = []\<rparr>"

definition operatingRegistry :: "World Registry Server" where
  "operatingRegistry =
     snd (Run sessionCodec RegistryHandler 2 (NewServer (stdio handshake) taskRegistry))"

definition reportPayload :: string where
  \<open>reportPayload = ''{"ID":"task_x","ParentID":null,"Description":"write the report","Context":"","Priority":3,"Status":"","Result":null,"CreatedAt":"","StartedAt":null,"CompletedAt":null,"UpdatedAt":""}''\<close>

definition reportRow :: Task where
  "reportRow =
     \<lparr>task_ID = ''task_x'', task_ParentID = None, task_Description = ''write the report'',
      task_Context = [], task_Priority = 3, task_Status = ''pending'', task_Result = None,
      task_CreatedAt = ''2026-01-05T09:00:00.000Z'', task_StartedAt = None,
      task_CompletedAt = None, task_UpdatedAt = ''2026-01-05T09:00:00.000Z''\<rparr>"

definition reportStored :: string where
  \<open>reportStored = ''{"ID":"task_x","ParentID":null,"Description":"write the report","Context":"","Priority":3,"Status":"pending","Result":null,"CreatedAt":"2026-01-05T09:00:00.000Z","StartedAt":null,"CompletedAt":null,"UpdatedAt":"2026-01-05T09:00:00.000Z"}''\<close>

text \<open>The same task asked for with priority 1, the member written \<open>Priority\<close>.\<close>

definition urgentArguments :: json where
  "urgentArguments =
     JObj [(''description'', JStr ''write the report''), (''Priority'', JInt 1)]"

definition urgentPayload :: string where
  \<open>urgentPayload = ''{"ID":"task_x","ParentID":null,"Description":"write the report","Context":"","Priority":1,"Status":"","Result":null,"CreatedAt":"","StartedAt":null,"CompletedAt":null,"UpdatedAt":""}''\<close>

definition initializeRequest :: Request where
  "initializeRequest =
     \<lparr>req_JSONRPC = ''2.0'', req_ID = Some (JInt 1), req_Method = ''initialize'',
      req_Params = Some (JObj [])\<rparr>"

definition initializedNote :: Request where
  "initializedNote =
     \<lparr>req_JSONRPC = ''2.0'', req_ID = None, req_Method = ''notifications/initialized'',
      req_Params = None\<rparr>"

definition listRequest :: Request where
  "listRequest =
     \<lparr>req_JSONRPC = ''2.0'', req_ID = Some (JInt 2), req_Method = ''tools/list'',
      req_Params = None\<rparr>"

section \<open>Messages that differ in the protocol tag only\<close>

text \<open>
  \<open>untagged\<close> forgets the tag of a request; \<open>tagless\<close> drops the \<open>jsonrpc\<close> members
  of a JSON object (the members the decoder takes for that field, however their name
  is capitalised), so two objects with the same \<open>tagless\<close> members are identical
  except for the tag (which may be absent); \<open>textTags\<close>: every \<open>jsonrpc\<close> member is
  a string or \<open>null\<close>.
\<close>

definition untagged :: "Request \<Rightarrow> Request" where
  "untagged r = r\<lparr>req_JSONRPC := []\<rparr>"

definition tagless :: "(string \<times> json) list \<Rightarrow> (string \<times> json) list" where
  "tagless ms = filter (\<lambda>(k, v). \<not> named ''jsonrpc'' k) ms"

definition textTag :: "json \<Rightarrow> bool" where
  "textTag v = (case v of JStr t \<Rightarrow> True | JNull \<Rightarrow> True | _ \<Rightarrow> False)"

definition textTags :: "(string \<times> json) list \<Rightarrow> bool" where
  "textTags ms = list_all (\<lambda>(k, v). named ''jsonrpc'' k \<longrightarrow> textTag v) ms"

section \<open>The member a field is read from\<close>

text \<open>
  \<open>lastMember f ms\<close> is the value of the last member of the object \<open>ms\<close> that the
  decoder takes for the field tagged \<open>f\<close>, if there is one.
\<close>

fun lastMember :: "string \<Rightarrow> (string \<times> json) list \<Rightarrow> json option" where
  "lastMember f [] = None"
| "lastMember f ((k, v) # ms) =
     (case lastMember f ms of
        Some x \<Rightarrow> Some x
      | None \<Rightarrow> if named f k then Some v else None)"

section \<open>Lifecycle invariant\<close>

text \<open>
  \<open>inService\<close>: the server has not shut down, and the state variable has gone through
  the states before the present one in order.  \<open>shutDown\<close>: it was in service until
  the end of input moved it to Shutdown.
\<close>

definition inService :: "'h Server \<Rightarrow> bool" where
  "inService s =
     ((state s = StateCreated \<and> stateLog s = [StateCreated])
      \<or> (state s = StateInitializing \<and> stateLog s = [StateCreated, StateInitializing])
      \<or> (state s = StateOperating
          \<and> stateLog s = [StateCreated, StateInitializing, StateOperating]))"

definition shutDown :: "'h Server \<Rightarrow> bool" where
  "shutDown s =
     (state s = StateShutdown
      \<and> (stateLog s = [StateCreated, StateShutdown]
          \<or> stateLog s = [StateCreated, StateInitializing, StateShutdown]
          \<or> stateLog s = [StateCreated, StateInitializing, StateOperating, StateShutdown]))"

section \<open>Rules for running the model on concrete input\<close>

lemmas line_defs = lineInitialize_def lineInitialized_def lineCall7_def lineCancel7_def
  lineCallNope_def linePingBatch_def linePing_def linePingTag2_def linePingNull_def
  lineListNull_def

lemmas read_defs = ReadMessage_def Scan_def unmarshalAs_def unmarshalRequest_def
  unmarshalBatch_def zeroRequest_def isSpace_def sessionCodec_def sessionParse_def message_def
  callEnvelope_def omitEmpty_def stdio_def NewTransport_def named_def upperCase_def

lemmas write_defs = WriteResponse_def WriteBatchResponse_def Write_def afterWrite_def
  jsonResponse_def jsonError_def rawOrNull_def NewResponse_def NewErrorResponse_def

lemmas dispatch_defs = dispatch_def IsNotification_def handleNotification_def
  handleInitialize_def handleToolsList_def handleToolsCall_def registerCall_def
  releaseCall_def callResponse_def setState_def MarshalInitializeResult_def
  MarshalToolsList_def MarshalToolResult_def unmarshalToolCallParams_def
  unmarshalCancelParams_def zeroToolCallParams_def zeroCancelParams_def
  NewInvalidRequest_def NewMethodNotFound_def NewInvalidParams_def NewInternalError_def
  NewParseError_def CodeInvalidRequest_def CodeParseError_def named_def upperCase_def

lemmas run_defs = iteration_def NewServer_def stdout_def slowHandler_def

lemma operating_eq:
  "operating =
     \<lparr>transport = \<lparr>scanner = \<lparr>upcoming = [], final = None\<rparr>,
                    writer = \<lparr>written = [jsonResponse (NewResponse (Some (JInt 1))
                                                 (Some jsonInitializeResult))],
                              room = None\<rparr>\<rparr>,
      handler = (), state = StateOperating, inflight = Map.empty, cancelled = {},
      contexts = 0,
      stateLog = [StateCreated, StateInitializing, StateOperating]\<rparr>"
  by (simp add: operating_def handshake_def eval_nat_numeral run_defs read_defs line_defs
      dispatch_defs write_defs)

section \<open>Dispatch and the protocol tag\<close>

lemma callResponse_tag: "callResponse (req\<lparr>req_JSONRPC := a\<rparr>) out = callResponse req out"
  by (simp add: callResponse_def cong: sum.case_cong)

lemma handleToolsCall_tag:
  "handleToolsCall H s (req\<lparr>req_JSONRPC := a\<rparr>) = handleToolsCall H s req"
  by (simp add: handleToolsCall_def callResponse_tag cong: sum.case_cong)

lemma handleToolsList_tag:
  "handleToolsList H s (req\<lparr>req_JSONRPC := a\<rparr>) = handleToolsList H s req"
  by (simp add: handleToolsList_def cong: sum.case_cong)

lemma handleInitialize_tag:
  "handleInitialize s (req\<lparr>req_JSONRPC := a\<rparr>) = handleInitialize s req"
  by (simp add: handleInitialize_def cong: sum.case_cong)

lemma handleNotification_tag:
  "handleNotification s (req\<lparr>req_JSONRPC := a\<rparr>) = handleNotification s req"
  by (simp add: handleNotification_def)

lemma dispatch_tag: "dispatch H s (req\<lparr>req_JSONRPC := a\<rparr>) = dispatch H s req"
  by (simp add: dispatch_def IsNotification_def handleNotification_tag handleInitialize_tag
      handleToolsList_tag handleToolsCall_tag Let_def cong: if_cong)

lemma untagged_fields:
  "untagged (r\<lparr>req_JSONRPC := t\<rparr>) = untagged r"
  "untagged (r\<lparr>req_ID := x\<rparr>) = (untagged r)\<lparr>req_ID := x\<rparr>"
  "untagged (r\<lparr>req_Method := t\<rparr>) = (untagged r)\<lparr>req_Method := t\<rparr>"
  "untagged (r\<lparr>req_Params := x\<rparr>) = (untagged r)\<lparr>req_Params := x\<rparr>"
  by (cases r; simp add: untagged_def)+

lemma tagless_Cons:
  "tagless ((k, v) # ms) = (if named ''jsonrpc'' k then tagless ms else (k, v) # tagless ms)"
  by (simp add: tagless_def)

lemma textTags_Cons:
  "textTags ((k, v) # ms) = ((named ''jsonrpc'' k \<longrightarrow> textTag v) \<and> textTags ms)"
  by (simp add: textTags_def)

lemma decodeRequest_tagless:
  "textTags ms \<Longrightarrow>
   map_sum id untagged (decodeRequest ms r0)
     = map_sum id untagged (decodeRequest (tagless ms) (untagged r0))"
proof (induction ms arbitrary: r0)
  case Nil
  then show ?case by (simp add: tagless_def untagged_def)
next
  case (Cons m ms)
  obtain k v where m: "m = (k, v)" by (cases m)
  from Cons.prems m have tl: "textTags ms" and hd: "named ''jsonrpc'' k \<longrightarrow> textTag v"
    by (simp_all add: textTags_Cons)
  note IH = Cons.IH [OF tl]
  show ?case
  proof (cases "named ''jsonrpc'' k")
    case True
    with hd consider t where "v = JStr t" | "v = JNull"
      by (cases v) (auto simp add: textTag_def)
    then show ?thesis
    proof cases
      case 1
      with True m IH [of "r0\<lparr>req_JSONRPC := t\<rparr>"] show ?thesis
        by (simp add: tagless_Cons untagged_fields)
    next
      case 2
      with True m IH [of r0] show ?thesis by (simp add: tagless_Cons untagged_fields)
    qed
  next
    case False
    note nt = False
    show ?thesis
    proof (cases "named ''id'' k")
      case True
      with nt m IH [of "r0\<lparr>req_ID := Some v\<rparr>"] show ?thesis
        by (simp add: tagless_Cons untagged_fields)
    next
      case nid: False
      show ?thesis
      proof (cases "named ''method'' k")
        case True
        show ?thesis
        proof (cases v)
          case (JStr t)
          with nt nid True m IH [of "r0\<lparr>req_Method := t\<rparr>"] show ?thesis
            by (simp add: tagless_Cons untagged_fields)
        next
          case JNull
          with nt nid True m IH [of r0] show ?thesis
            by (simp add: tagless_Cons untagged_fields)
        qed (use nt nid True m in \<open>simp_all add: tagless_Cons untagged_fields\<close>)
      next
        case nmeth: False
        show ?thesis
        proof (cases "named ''params'' k")
          case True
          with nt nid nmeth m IH [of "r0\<lparr>req_Params := Some v\<rparr>"] show ?thesis
            by (simp add: tagless_Cons untagged_fields)
        next
          case False
          with nt nid nmeth m IH [of r0] show ?thesis
            by (simp add: tagless_Cons untagged_fields)
        qed
      qed
    qed
  qed
qed

lemma dispatch_untagged: "dispatch H s (untagged r) = dispatch H s r"
  by (simp add: untagged_def dispatch_tag)

lemma dispatch_after_untagged:
  "map_sum id (dispatch H s) (map_sum id untagged x) = map_sum id (dispatch H s) x"
  by (cases x) (simp_all add: dispatch_untagged)

lemma tag_on_the_wire:
  assumes "tagless ms = tagless ms'" and "textTags ms" and "textTags ms'"
  shows "map_sum id (dispatch H s) (unmarshalRequest (JObj ms))
           = map_sum id (dispatch H s) (unmarshalRequest (JObj ms'))"
proof -
  have e: "map_sum id untagged (decodeRequest ms zeroRequest)
          = map_sum id untagged (decodeRequest ms' zeroRequest)"
    using assms by (simp add: decodeRequest_tagless)
  have "map_sum id (dispatch H s) (decodeRequest ms zeroRequest)
          = map_sum id (dispatch H s) (map_sum id untagged (decodeRequest ms zeroRequest))"
    by (simp only: dispatch_after_untagged)
  also have "\<dots> = map_sum id (dispatch H s) (map_sum id untagged (decodeRequest ms' zeroRequest))"
    by (simp only: e)
  also have "\<dots> = map_sum id (dispatch H s) (decodeRequest ms' zeroRequest)"
    by (simp only: dispatch_after_untagged)
  finally show ?thesis by (simp add: unmarshalRequest_def)
qed

text \<open>
  In the loop: two lines read as single requests that differ in the tag only lead to
  the same pass, response written and server included.
\<close>

lemma pass_ignores_tag:
  assumes r: "ReadMessage J t = (Inr [r], t1)" and r': "ReadMessage J t' = (Inr [r'], t1)"
    and u: "untagged r = untagged r'"
  shows "iteration J H (s\<lparr>transport := t\<rparr>) = iteration J H (s\<lparr>transport := t'\<rparr>)"
proof -
  have "dispatch H (s\<lparr>transport := t1\<rparr>) r = dispatch H (s\<lparr>transport := t1\<rparr>) (untagged r)"
    by (simp only: dispatch_untagged)
  also have "\<dots> = dispatch H (s\<lparr>transport := t1\<rparr>) r'"
    by (simp only: u dispatch_untagged)
  finally show ?thesis using r r' by (simp add: iteration_def)
qed

lemma other_tag_fails_to_decode:
  "\<not> textTag v \<Longrightarrow>
   unmarshalRequest (JObj ((''jsonrpc'', v) # ms)) = Inl (typeMismatch ''Request.jsonrpc'')"
  by (cases v) (simp_all add: unmarshalRequest_def textTag_def named_def upperCase_def)

text \<open>
  Claim C10, as the code has it.  Dispatch never reads the protocol tag: two requests
  that differ only in their \<open>jsonrpc\<close> field get the same response, or none, and
  leave the server in the same condition.  On the wire: two JSON objects that are
  identical except for their \<open>jsonrpc\<close> members, each such member being a string
  (\<open>2.0\<close> or any other) or \<open>null\<close>, or absent altogether, either both fail to
  decode with the same error (for a reason other than the tag) or decode to requests
  that are dispatched with the same result.  No such tag is refused.
\<close>

theorem protocol_tag_ignored:
  "dispatch H s (req\<lparr>req_JSONRPC := a\<rparr>) = dispatch H s (req\<lparr>req_JSONRPC := b\<rparr>)
   \<and> (tagless ms = tagless ms' \<and> textTags ms \<and> textTags ms' \<longrightarrow>
        map_sum id (dispatch H s) (unmarshalRequest (JObj ms))
          = map_sum id (dispatch H s) (unmarshalRequest (JObj ms')))"
proof (intro conjI impI)
  show "dispatch H s (req\<lparr>req_JSONRPC := a\<rparr>) = dispatch H s (req\<lparr>req_JSONRPC := b\<rparr>)"
    by (simp add: dispatch_tag)
next
  assume "tagless ms = tagless ms' \<and> textTags ms \<and> textTags ms'"
  then show "map_sum id (dispatch H s) (unmarshalRequest (JObj ms))
          = map_sum id (dispatch H s) (unmarshalRequest (JObj ms'))"
    by (elim conjE) (rule tag_on_the_wire)
qed

theorem protocol_tag_ignored_witness:
  "dispatch slowHandler operating ((pingRequest (JInt 1))\<lparr>req_JSONRPC := ''1.0''\<rparr>)
     = dispatch slowHandler operating ((pingRequest (JInt 1))\<lparr>req_JSONRPC := ''2.0''\<rparr>)
   \<and> map_sum id (dispatch slowHandler operating)
        (unmarshalRequest (JObj [(''id'', JInt 1), (''method'', JStr ''ping'')]))
     = map_sum id (dispatch slowHandler operating)
        (unmarshalRequest (JObj [(''jsonrpc'', JStr ''1.0''), (''id'', JInt 1),
                                 (''method'', JStr ''ping'')]))
   \<and> unmarshalRequest (JObj [(''id'', JInt 1), (''method'', JStr ''ping'')])
     = Inr ((pingRequest (JInt 1))\<lparr>req_JSONRPC := []\<rparr>)"
proof -
  have t: "tagless [(''id'', JInt 1), (''method'', JStr ''ping'')]
             = tagless [(''jsonrpc'', JStr ''1.0''), (''id'', JInt 1), (''method'', JStr ''ping'')]
           \<and> textTags [(''id'', JInt 1), (''method'', JStr ''ping'')]
           \<and> textTags [(''jsonrpc'', JStr ''1.0''), (''id'', JInt 1), (''method'', JStr ''ping'')]"
    by (simp add: tagless_def textTags_def textTag_def named_def upperCase_def)
  have d: "unmarshalRequest (JObj [(''id'', JInt 1), (''method'', JStr ''ping'')])
     = Inr ((pingRequest (JInt 1))\<lparr>req_JSONRPC := []\<rparr>)"
    by (simp add: unmarshalRequest_def zeroRequest_def pingRequest_def named_def upperCase_def)
  have 1: "dispatch slowHandler operating ((pingRequest (JInt 1))\<lparr>req_JSONRPC := ''1.0''\<rparr>)
     = dispatch slowHandler operating ((pingRequest (JInt 1))\<lparr>req_JSONRPC := ''2.0''\<rparr>)"
    by (rule protocol_tag_ignored [THEN conjunct1])
  have 2: "map_sum id (dispatch slowHandler operating)
        (unmarshalRequest (JObj [(''id'', JInt 1), (''method'', JStr ''ping'')]))
     = map_sum id (dispatch slowHandler operating)
        (unmarshalRequest (JObj [(''jsonrpc'', JStr ''1.0''), (''id'', JInt 1),
                                 (''method'', JStr ''ping'')]))"
    by (rule protocol_tag_ignored [THEN conjunct2, THEN mp, OF t])
  from 1 2 d show ?thesis by (intro conjI)
qed

text \<open>
  Claim C10 as written speaks of any value of the \<open>jsonrpc\<close> field.  The field of
  the Go struct is a string, so a message whose tag is the number \<open>2\<close> does not
  decode: it is answered with a parse error under the identifier \<open>null\<close>, where the
  same message with the tag \<open>"2.0"\<close> is answered with the result of \<open>ping\<close>.
\<close>

theorem number_tag_is_rejected:
  "stdout (snd (iteration sessionCodec slowHandler (NewServer (stdio [linePing]) ())))
     = [JObj [(''jsonrpc'', JStr ''2.0''), (''id'', JInt 1), (''result'', JObj [])]]
   \<and> stdout (snd (iteration sessionCodec slowHandler (NewServer (stdio [linePingTag2]) ())))
     = [JObj [(''jsonrpc'', JStr ''2.0''), (''id'', JNull),
              (''error'', JObj [(''code'', JInt (- 32700)),
                                (''message'', JStr (typeMismatch ''Request.jsonrpc''))])]]"
  by (simp add: run_defs read_defs line_defs dispatch_defs write_defs errorText_def)

section \<open>Requests in the wrong state\<close>

text \<open>
  Claim C6.  A \<open>tools/list\<close> or \<open>tools/call\<close> request that carries an identifier and
  is dispatched while the state is not Operating is answered with an error response
  whose code is \<open>-32600\<close>, echoing the identifier, and the server (its lifecycle
  state included) is left exactly as it was.
\<close>

theorem wrong_state_rejected:
  assumes "req_ID req \<noteq> None"
    and "req_Method req = ''tools/list'' \<or> req_Method req = ''tools/call''"
    and "state s \<noteq> StateOperating"
  shows "\<exists>r. dispatch H s req = (Some r, s) \<and> resp_ID r = req_ID req
            \<and> resp_Result r = None
            \<and> map_option err_Code (resp_Error r) = Some (- 32600)"
  using assms
  by (auto simp add: dispatch_def IsNotification_def NewErrorResponse_def NewInvalidRequest_def
      CodeInvalidRequest_def Let_def)

theorem wrong_state_rejected_witness:
  "req_ID listRequest \<noteq> None
   \<and> (req_Method listRequest = ''tools/list'' \<or> req_Method listRequest = ''tools/call'')
   \<and> state (NewServer (stdio []) ()) \<noteq> StateOperating
   \<and> (\<exists>r. dispatch slowHandler (NewServer (stdio []) ()) listRequest
              = (Some r, NewServer (stdio []) ())
          \<and> resp_ID r = req_ID listRequest \<and> resp_Result r = None
          \<and> map_option err_Code (resp_Error r) = Some (- 32600))"
proof -
  have a: "req_ID listRequest \<noteq> None" by (simp add: listRequest_def)
  have b: "req_Method listRequest = ''tools/list'' \<or> req_Method listRequest = ''tools/call''"
    by (simp add: listRequest_def)
  have c: "state (NewServer (stdio []) ()) \<noteq> StateOperating" by (simp add: NewServer_def)
  from a b c wrong_state_rejected [OF a b c, of slowHandler] show ?thesis by blast
qed

section \<open>The identifier of a response\<close>

lemma callResponse_echo:
  "resp_ID (callResponse req out) = req_ID req \<and> resp_JSONRPC (callResponse req out) = ''2.0''"
  by (simp add: callResponse_def MarshalToolResult_def NewResponse_def)

lemma handleToolsCall_echo:
  "resp_ID (fst (handleToolsCall H s req)) = req_ID req
   \<and> resp_JSONRPC (fst (handleToolsCall H s req)) = ''2.0''"
  by (simp add: handleToolsCall_def callResponse_echo NewErrorResponse_def Let_def
      split: sum.splits prod.splits)

lemma handleToolsList_echo:
  "resp_ID (handleToolsList H s req) = req_ID req
   \<and> resp_JSONRPC (handleToolsList H s req) = ''2.0''"
  by (simp add: handleToolsList_def MarshalToolsList_def NewResponse_def)

lemma handleInitialize_echo:
  "resp_ID (fst (handleInitialize s req)) = req_ID req
   \<and> resp_JSONRPC (fst (handleInitialize s req)) = ''2.0''"
  by (simp add: handleInitialize_def MarshalInitializeResult_def NewResponse_def Let_def)

lemma dispatch_echo:
  assumes "req_ID req = Some x"
  shows "\<exists>r s'. dispatch H s req = (Some r, s') \<and> resp_ID r = Some x
           \<and> resp_JSONRPC r = ''2.0''"
  using assms handleToolsCall_echo [of H s req] handleToolsList_echo [of H s req]
    handleInitialize_echo [of s req]
  by (auto simp add: dispatch_def IsNotification_def Let_def NewErrorResponse_def NewResponse_def
      split: prod.splits)

lemma jsonResponse_id:
  "resp_ID r = Some x \<Longrightarrow> resp_JSONRPC r = ''2.0'' \<Longrightarrow>
   \<exists>rest. jsonResponse r = JObj ((''jsonrpc'', JStr ''2.0'') # (''id'', x) # rest)"
  by (simp add: jsonResponse_def rawOrNull_def)

text \<open>A request is answered exactly when it carries an identifier.\<close>

lemma dispatch_answers: "(fst (dispatch H s req) = None) = (req_ID req = None)"
  by (auto simp add: dispatch_def IsNotification_def Let_def split: prod.splits)

text \<open>In a batch the responses carry the identifiers of the requests, in their order.\<close>

lemma dispatchAll_echo:
  "map resp_ID (fst (dispatchAll H s msgs)) = filter (\<lambda>i. i \<noteq> None) (map req_ID msgs)"
proof (induction msgs arbitrary: s)
  case Nil
  then show ?case by simp
next
  case (Cons m ms)
  show ?case
  proof (cases "req_ID m")
    case None
    with dispatch_answers [of H s m] Cons.IH [of "snd (dispatch H s m)"] show ?thesis
      by (auto split: prod.splits)
  next
    case (Some x)
    from dispatch_echo [OF Some, of H s] obtain r s' where
      "dispatch H s m = (Some r, s')" and "resp_ID r = Some x" by blast
    with Some Cons.IH [of s'] show ?thesis by (cases "dispatchAll H s' ms") simp
  qed
qed

text \<open>
  The echo.  A request that carries an identifier \<open>x\<close> (any JSON value: a string, an
  integer, ...) always gets a response, and the response carries exactly \<open>x\<close>, in
  the record and in the line written for it.  A string stays that string and an
  integer that integer, so for a request with a string or an integer as identifier
  the identifier written is never \<open>null\<close>.
\<close>

lemma identifier_echo:
  assumes "req_ID req = Some x"
  shows "\<exists>r s' rest. dispatch H s req = (Some r, s') \<and> resp_ID r = Some x
           \<and> jsonResponse r = JObj ((''jsonrpc'', JStr ''2.0'') # (''id'', x) # rest)"
proof -
  from dispatch_echo [OF assms, of H s] obtain r s' where
    d: "dispatch H s req = (Some r, s')" and i: "resp_ID r = Some x"
    and t: "resp_JSONRPC r = ''2.0''"
    by blast
  from jsonResponse_id [OF i t] obtain rest where
    "jsonResponse r = JObj ((''jsonrpc'', JStr ''2.0'') # (''id'', x) # rest)" by blast
  with d i show ?thesis by blast
qed

lemma identifier_echo_instance:
  "req_ID (pingRequest (JStr ''p'')) = Some (JStr ''p'')
   \<and> (\<exists>r s' rest. dispatch slowHandler (NewServer (stdio []) ()) (pingRequest (JStr ''p''))
                     = (Some r, s')
          \<and> resp_ID r = Some (JStr ''p'')
          \<and> jsonResponse r = JObj ((''jsonrpc'', JStr ''2.0'') # (''id'', JStr ''p'') # rest))"
proof -
  have a: "req_ID (pingRequest (JStr ''p'')) = Some (JStr ''p'')" by (simp add: pingRequest_def)
  from a identifier_echo [OF a, of slowHandler "NewServer (stdio []) ()"] show ?thesis by blast
qed

text \<open>
  A response to a request has the identifier \<open>null\<close> on the wire only when the
  identifier of the request is an explicit \<open>null\<close>.
\<close>

lemma null_identifier_only_echoed:
  assumes "dispatch H s req = (Some r, s')" and "rawOrNull (resp_ID r) = JNull"
  shows "req_ID req = Some JNull"
proof (cases "req_ID req")
  case None
  with dispatch_answers [of H s req] assms(1) show ?thesis by simp
next
  case (Some x)
  from dispatch_echo [OF Some, of H s] assms show ?thesis
    by (auto simp add: rawOrNull_def Some)
qed

text \<open>
  Claim C5 says that a response has a null identifier only when the incoming message
  could not be parsed at all.  The line
  \<^verbatim>\<open>{"jsonrpc":"2.0","id":null,"method":"tools/list"}\<close> is read without error as one
  request, whose identifier is the raw value \<open>null\<close>, and the response written for it
  has the identifier \<open>null\<close>.
\<close>

theorem null_identifier_of_parsed_message:
  "fst (ReadMessage sessionCodec (stdio [lineListNull]))
     = Inr [\<lparr>req_JSONRPC = ''2.0'', req_ID = Some JNull, req_Method = ''tools/list'',
             req_Params = None\<rparr>]
   \<and> stdout (snd (iteration sessionCodec slowHandler (NewServer (stdio [lineListNull]) ())))
     = [JObj [(''jsonrpc'', JStr ''2.0''), (''id'', JNull),
              (''error'', JObj [(''code'', JInt (- 32600)),
                                (''message'', JStr ''server not initialized'')])]]"
  by (simp add: run_defs read_defs line_defs dispatch_defs write_defs)

section \<open>An explicit null identifier\<close>

lemma null_identifier_is_answered:
  assumes "req_ID req = Some JNull"
  shows "\<not> IsNotification req
         \<and> (\<exists>r s'. dispatch H s req = (Some r, s') \<and> resp_ID r = Some JNull)"
  using assms dispatch_echo [OF assms, of H s] by (auto simp add: IsNotification_def)

text \<open>
  Claim C7 says a message whose \<open>id\<close> is an explicit \<open>null\<close> is rejected as
  malformed.  In the code the line \<^verbatim>\<open>{"jsonrpc":"2.0","id":null,"method":"ping"}\<close>
  decodes to a request whose identifier is the raw value \<open>null\<close>, which is not nil, so
  it is not a notification; it is dispatched as an ordinary \<open>ping\<close> and answered with
  the success result \<open>{}\<close> under the identifier \<open>null\<close>.
\<close>

theorem null_identifier_is_dispatched:
  "fst (ReadMessage sessionCodec (stdio [linePingNull])) = Inr [pingRequest JNull]
   \<and> \<not> IsNotification (pingRequest JNull)
   \<and> Run sessionCodec slowHandler 2 (NewServer (stdio [linePingNull]) ())
     = (Returned None,
        (NewServer \<lparr>scanner = \<lparr>upcoming = [], final = None\<rparr>,
                    writer = \<lparr>written = [JObj [(''jsonrpc'', JStr ''2.0''), (''id'', JNull),
                                                 (''result'', JObj [])]],
                              room = None\<rparr>\<rparr> ())
        \<lparr>state := StateShutdown, stateLog := [StateCreated, StateShutdown]\<rparr>)"
  by (simp add: eval_nat_numeral run_defs read_defs line_defs dispatch_defs write_defs
      pingRequest_def)

section \<open>Calling a tool the registry does not have\<close>

text \<open>
  Claim C8.  With the registry as handler, a \<open>tools/call\<close> request dispatched in the
  Operating state whose parameters decode to a name and arguments, the name not being
  registered, gets a response without an error record (a successful protocol
  response); its result has \<open>isError\<close> true and exactly one content block, of type
  \<open>text\<close>, whose text is \<open>unknown tool: \<close> followed by the name asked for.
\<close>

theorem unknown_tool_is_execution_error:
  assumes "state s = StateOperating" and "req_ID req \<noteq> None"
    and "req_Method req = ''tools/call''"
    and "unmarshalToolCallParams (req_Params req) = Inr params"
    and "map_of (tools (handler s)) (call_Name params) = None"
  shows "\<exists>r s'. dispatch RegistryHandler s req = (Some r, s') \<and> resp_Error r = None
           \<and> resp_ID r = req_ID req
           \<and> resp_Result r =
               Some (JObj [(''content'',
                            JArr [JObj [(''type'', JStr ''text''),
                                        (''text'', JStr (''unknown tool: '' @ call_Name params))]]),
                           (''isError'', JBool True)])
           \<and> state s' = StateOperating"
  using assms
  by (auto simp add: dispatch_def IsNotification_def Let_def handleToolsCall_def registerCall_def
      releaseCall_def RegistryHandler_def Registry_CallTool_def callResponse_def
      MarshalToolResult_def jsonToolResult_def jsonContentBlock_def NewResponse_def)

lemma operatingRegistry_state:
  "state operatingRegistry = StateOperating \<and> handler operatingRegistry = taskRegistry"
  by (simp add: operatingRegistry_def handshake_def eval_nat_numeral run_defs read_defs
      line_defs dispatch_defs write_defs)

lemma nope_not_registered: "map_of (tools taskRegistry) ''nope'' = None"
  by (simp add: taskRegistry_def register_def createTaskDefinition_def)

lemma nope_envelope:
  "unmarshalToolCallParams (req_Params nopeRequest)
     = Inr \<lparr>call_Name = ''nope'', call_Arguments = Some (JObj [])\<rparr>"
  by (simp add: nopeRequest_def callEnvelope_def unmarshalToolCallParams_def
      zeroToolCallParams_def named_def upperCase_def)

theorem unknown_tool_is_execution_error_witness:
  "state operatingRegistry = StateOperating \<and> req_ID nopeRequest \<noteq> None
   \<and> req_Method nopeRequest = ''tools/call''
   \<and> map_of (tools (handler operatingRegistry)) ''nope'' = None
   \<and> (\<exists>r s'. dispatch RegistryHandler operatingRegistry nopeRequest = (Some r, s')
          \<and> resp_Error r = None \<and> resp_ID r = Some (JInt 3)
          \<and> resp_Result r =
              Some (JObj [(''content'',
                           JArr [JObj [(''type'', JStr ''text''),
                                       (''text'', JStr ''unknown tool: nope'')]]),
                          (''isError'', JBool True)])
          \<and> state s' = StateOperating)"
proof -
  have a: "state operatingRegistry = StateOperating" by (simp add: operatingRegistry_state)
  have b: "req_ID nopeRequest \<noteq> None" by (simp add: nopeRequest_def)
  have c: "req_Method nopeRequest = ''tools/call''" by (simp add: nopeRequest_def)
  have e: "map_of (tools (handler operatingRegistry))
             (call_Name \<lparr>call_Name = ''nope'', call_Arguments = Some (JObj [])\<rparr>) = None"
    by (simp add: operatingRegistry_state nope_not_registered)
  from unknown_tool_is_execution_error [OF a b c nope_envelope e]
  have "\<exists>r s'. dispatch RegistryHandler operatingRegistry nopeRequest = (Some r, s')
          \<and> resp_Error r = None \<and> resp_ID r = Some (JInt 3)
          \<and> resp_Result r =
              Some (JObj [(''content'',
                           JArr [JObj [(''type'', JStr ''text''),
                                       (''text'', JStr ''unknown tool: nope'')]]),
                          (''isError'', JBool True)])
          \<and> state s' = StateOperating"
    by (simp add: nopeRequest_def)
  with a b c e show ?thesis by simp
qed

text \<open>The exchange as it appears on the streams, after the handshake.\<close>

lemma unknown_tool_transcript:
  "stdout (snd (Run sessionCodec RegistryHandler 4
      (NewServer (stdio [lineInitialize, lineInitialized, lineCallNope]) taskRegistry)))
   = [jsonResponse (NewResponse (Some (JInt 1)) (Some jsonInitializeResult)),
      JObj [(''jsonrpc'', JStr ''2.0''), (''id'', JInt 3),
            (''result'', JObj [(''content'', JArr [JObj [(''type'', JStr ''text''),
                                                          (''text'', JStr ''unknown tool: nope'')]]),
                               (''isError'', JBool True)])]]"
  by (simp add: eval_nat_numeral run_defs read_defs line_defs dispatch_defs write_defs
      RegistryHandler_def Registry_CallTool_def Registry_ListTools_def taskRegistry_def
      register_def createTaskDefinition_def jsonToolResult_def jsonContentBlock_def)


section \<open>The create_task tool\<close>

lemma priority_is_no_other_field:
  "named ''priority'' k \<Longrightarrow> \<not> named ''description'' k \<and> \<not> named ''parent_id'' k"
  by (auto simp add: named_def upperCase_def)

lemma decode_priority:
  "decodeCreateTaskParams ms p0 = Inr p \<Longrightarrow>
   ct_Priority p =
     (case lastMember ''priority'' ms of
        None \<Rightarrow> ct_Priority p0
      | Some (JInt i) \<Rightarrow> Some i
      | Some _ \<Rightarrow> None)"
proof (induction ms arbitrary: p0)
  case Nil
  then show ?case by simp
next
  case (Cons m ms)
  obtain k v where m: "m = (k, v)" by (cases m)
  show ?case
  proof (cases "named ''priority'' k")
    case True
    with priority_is_no_other_field [OF True] Cons.prems m show ?thesis
      by (cases v) (auto dest!: Cons.IH split: option.splits json.splits if_splits)
  next
    case False
    with Cons.prems m show ?thesis
      by (cases v) (auto dest!: Cons.IH split: option.splits json.splits if_splits)
  qed
qed

lemma priority_of_arguments:
  assumes "decodeCreateTaskParams ms zeroCreateTaskParams = Inr params"
  shows "(case ct_Priority params of None \<Rightarrow> 3 | Some p \<Rightarrow> p)
           = (case lastMember ''priority'' ms of Some (JInt i) \<Rightarrow> i | _ \<Rightarrow> 3)"
  using decode_priority [OF assms]
  by (simp add: zeroCreateTaskParams_def split: option.splits json.splits)

text \<open>
  The priority of the task created.  Take arguments that are an object whose members
  decode, with a priority (if any) from 1 to 5, a parent (if any) that exists, and a
  fresh identifier from \<^verbatim>\<open>xid\<close>.  Then \<^verbatim>\<open>createTask\<close> succeeds, and the record it
  returns and the row it stores both have the priority of the last \<open>priority\<close>
  member of the arguments, and 3 when there is none (or it is \<open>null\<close>).  The payload
  is the text of the record as it is before the insertion: its status and its time
  stamps are empty, where the row has the defaults of the table.
\<close>

lemma create_task_priority:
  assumes "decodeCreateTaskParams ms zeroCreateTaskParams = Inr params"
    and "case ct_Priority params of None \<Rightarrow> True | Some p \<Rightarrow> 1 \<le> p \<and> p \<le> 5"
    and "case ct_ParentID params of None \<Rightarrow> True | Some p \<Rightarrow> p \<in> set (map task_ID (rows w))"
    and "''task_'' @ xid w (issued w) \<notin> set (map task_ID (rows w))"
  shows "createTask J w (Some (JObj ms)) =
           ((Some \<lparr>res_Content =
                     [\<lparr>blk_Type = ''text'',
                       blk_Text = render J (JObj
                         [(''ID'', JStr (''task_'' @ xid w (issued w))),
                          (''ParentID'', jsonOptString (ct_ParentID params)),
                          (''Description'', JStr (ct_Description params)),
                          (''Context'', JStr (case ct_Context params of None \<Rightarrow> [] | Some c \<Rightarrow> c)),
                          (''Priority'',
                           JInt (case lastMember ''priority'' ms of Some (JInt i) \<Rightarrow> i | _ \<Rightarrow> 3)),
                          (''Status'', JStr []), (''Result'', JNull), (''CreatedAt'', JStr []),
                          (''StartedAt'', JNull), (''CompletedAt'', JNull),
                          (''UpdatedAt'', JStr [])])\<rparr>],
                   res_IsError = False\<rparr>, None),
            w\<lparr>issued := Suc (issued w),
              rows := rows w @
                [\<lparr>task_ID = ''task_'' @ xid w (issued w), task_ParentID = ct_ParentID params,
                  task_Description = ct_Description params,
                  task_Context = (case ct_Context params of None \<Rightarrow> [] | Some c \<Rightarrow> c),
                  task_Priority =
                    (case lastMember ''priority'' ms of Some (JInt i) \<Rightarrow> i | _ \<Rightarrow> 3),
                  task_Status = ''pending'', task_Result = None, task_CreatedAt = now w,
                  task_StartedAt = None, task_CompletedAt = None,
                  task_UpdatedAt = now w\<rparr>]\<rparr>)"
proof -
  let ?task = "buildTask (''task_'' @ xid w (issued w)) params"
  have p: "task_Priority ?task
             = (case lastMember ''priority'' ms of Some (JInt i) \<Rightarrow> i | _ \<Rightarrow> 3)"
    using priority_of_arguments [OF assms(1)]
    by (simp add: buildTask_def newTask_def Let_def split: option.splits)
  have f: "task_ID ?task = ''task_'' @ xid w (issued w)
           \<and> task_ParentID ?task = ct_ParentID params
           \<and> task_Description ?task = ct_Description params
           \<and> task_Context ?task = (case ct_Context params of None \<Rightarrow> [] | Some c \<Rightarrow> c)
           \<and> task_Status ?task = [] \<and> task_Result ?task = None \<and> task_CreatedAt ?task = []
           \<and> task_StartedAt ?task = None \<and> task_CompletedAt ?task = None
           \<and> task_UpdatedAt ?task = []"
    by (simp add: buildTask_def newTask_def Let_def split: option.splits)
  have run: "createTask J w (Some (JObj ms)) =
               ((Some \<lparr>res_Content = [\<lparr>blk_Type = ''text'', blk_Text = render J (jsonTask ?task)\<rparr>],
                       res_IsError = False\<rparr>, None),
                w\<lparr>issued := Suc (issued w), rows := rows w @ [storedRow w ?task]\<rparr>)"
    using assms
    by (auto simp add: createTask_def unmarshalCreateTaskParams_def NewTaskID_def InsertTask_def
        buildTask_def newTask_def resultJSON_def MarshalTask_def storedRow_def Let_def
        split: option.splits)
  from p f show ?thesis
    unfolding run by (simp add: jsonTask_def storedRow_def jsonOptString_def)
qed

text \<open>
  With the priority 1, under the member name \<open>Priority\<close>: record and row have the
  priority 1.
\<close>

lemma create_task_with_priority:
  "createTask sessionCodec morning (Some urgentArguments)
     = ((Some \<lparr>res_Content = [\<lparr>blk_Type = ''text'', blk_Text = urgentPayload\<rparr>],
               res_IsError = False\<rparr>, None),
        morning\<lparr>issued := 1, rows := [reportRow\<lparr>task_Priority := 1\<rparr>]\<rparr>)"
  by (simp add: createTask_def unmarshalCreateTaskParams_def zeroCreateTaskParams_def
      urgentArguments_def named_def upperCase_def fitsInt_def NewTaskID_def InsertTask_def
      buildTask_def newTask_def resultJSON_def MarshalTask_def storedRow_def Let_def
      morning_def sessionCodec_def jsonTask_def jsonOptString_def urgentPayload_def
      reportRow_def showInt_def quoted_def)

text \<open>
  Claim C9 says that the payload \<open>create_task\<close> returns is the created record.  For
  the arguments \<^verbatim>\<open>{"description":"write the report"}\<close> the tool creates the row
  \<open>reportRow\<close>, with priority 3, the status \<open>pending\<close> and the time stamps the table
  gives it, and returns \<open>reportPayload\<close>: the record as it was before the insertion,
  with priority 3 but an empty status and empty time stamps.  \<open>get_task\<close>, asked for
  that task right afterwards, returns \<open>reportStored\<close>, the record created; the two
  payloads differ.
\<close>

theorem create_task_returns_unstored_record:
  "createTask sessionCodec morning (Some (JObj [(''description'', JStr ''write the report'')]))
     = ((Some \<lparr>res_Content = [\<lparr>blk_Type = ''text'', blk_Text = reportPayload\<rparr>],
               res_IsError = False\<rparr>, None),
        morning\<lparr>issued := 1, rows := [reportRow]\<rparr>)
   \<and> getTask sessionCodec (morning\<lparr>issued := 1, rows := [reportRow]\<rparr>)
        (Some (JObj [(''id'', JStr ''task_x'')]))
     = ((Some \<lparr>res_Content = [\<lparr>blk_Type = ''text'', blk_Text = reportStored\<rparr>],
               res_IsError = False\<rparr>, None),
        morning\<lparr>issued := 1, rows := [reportRow]\<rparr>)
   \<and> reportPayload \<noteq> reportStored"
proof (intro conjI)
  show "createTask sessionCodec morning
          (Some (JObj [(''description'', JStr ''write the report'')]))
     = ((Some \<lparr>res_Content = [\<lparr>blk_Type = ''text'', blk_Text = reportPayload\<rparr>],
               res_IsError = False\<rparr>, None),
        morning\<lparr>issued := 1, rows := [reportRow]\<rparr>)"
    by (simp add: createTask_def unmarshalCreateTaskParams_def zeroCreateTaskParams_def
        named_def upperCase_def NewTaskID_def InsertTask_def buildTask_def newTask_def
        resultJSON_def MarshalTask_def storedRow_def Let_def morning_def sessionCodec_def
        jsonTask_def jsonOptString_def reportPayload_def reportRow_def showInt_def quoted_def)
next
  show "getTask sessionCodec (morning\<lparr>issued := 1, rows := [reportRow]\<rparr>)
        (Some (JObj [(''id'', JStr ''task_x'')]))
     = ((Some \<lparr>res_Content = [\<lparr>blk_Type = ''text'', blk_Text = reportStored\<rparr>],
               res_IsError = False\<rparr>, None),
        morning\<lparr>issued := 1, rows := [reportRow]\<rparr>)"
    by (simp add: getTask_def unmarshalGetTaskParams_def zeroGetTaskParams_def GetTask_def
        named_def upperCase_def resultJSON_def MarshalTask_def sessionCodec_def jsonTask_def
        jsonOptString_def reportStored_def reportRow_def showInt_def quoted_def)
next
  show "reportPayload \<noteq> reportStored"
    by (simp add: reportPayload_def reportStored_def)
qed

section \<open>What one pass of the loop preserves\<close>

lemma dispatch_transport: "transport (snd (dispatch H s req)) = transport s"
  by (auto simp add: dispatch_defs Let_def split: sum.splits option.splits prod.splits)

lemma dispatchAll_transport: "transport (snd (dispatchAll H s msgs)) = transport s"
proof (induction msgs arbitrary: s)
  case Nil
  then show ?case by simp
next
  case (Cons m ms)
  from Cons.IH [of "snd (dispatch H s m)"] dispatch_transport [of H s m]
  show ?case by (auto split: prod.splits)
qed

lemma dispatchAll_count:
  "length (fst (dispatchAll H s msgs)) = length (filter (\<lambda>m. req_ID m \<noteq> None) msgs)"
proof (induction msgs arbitrary: s)
  case Nil
  then show ?case by simp
next
  case (Cons m ms)
  from Cons.IH [of "snd (dispatch H s m)"] dispatch_answers [of H s m]
  show ?case by (auto split: prod.splits option.splits)
qed

lemma ReadMessage_writer: "writer (snd (ReadMessage J t)) = writer t"
  by (simp add: ReadMessage_def Scan_def split: list.splits scan.splits option.splits)

lemma batch_of_several:
  assumes rd: "ReadMessage J (transport s) = (Inr msgs, t)"
    and n1: "length msgs \<noteq> 1"
    and rm: "room (writer (transport s)) = None"
  shows "\<exists>rs. length rs = length (filter (\<lambda>m. req_ID m \<noteq> None) msgs)
           \<and> fst (iteration J H s) = Looping
           \<and> stdout (snd (iteration J H s))
               = stdout s @ (if rs = [] then [] else [JArr (map jsonResponse rs)])"
proof -
  let ?s0 = "s\<lparr>transport := t\<rparr>"
  obtain rs s1 where d: "dispatchAll H ?s0 msgs = (rs, s1)" by (cases "dispatchAll H ?s0 msgs")
  have w: "writer t = writer (transport s)" using ReadMessage_writer [of J "transport s"] rd by simp
  have t1: "transport s1 = t" using dispatchAll_transport [of H ?s0 msgs] d by simp
  have len: "length rs = length (filter (\<lambda>m. req_ID m \<noteq> None) msgs)"
    using dispatchAll_count [of H ?s0 msgs] d by simp
  have "fst (iteration J H s) = Looping
        \<and> stdout (snd (iteration J H s))
            = stdout s @ (if rs = [] then [] else [JArr (map jsonResponse rs)])"
    using rd n1 d t1 w rm
    by (simp add: iteration_def WriteBatchResponse_def Write_def afterWrite_def stdout_def)
  with len show ?thesis by blast
qed

lemma read_of_one:
  assumes rd: "ReadMessage J (transport s) = (Inr [m], t)"
    and rm: "room (writer (transport s)) = None"
  shows "fst (iteration J H s) = Looping
         \<and> stdout (snd (iteration J H s))
             = stdout s @ (case fst (dispatch H (s\<lparr>transport := t\<rparr>) m) of
                             None \<Rightarrow> []
                           | Some r \<Rightarrow> [jsonResponse r])"
proof -
  let ?s0 = "s\<lparr>transport := t\<rparr>"
  obtain resp s1 where d: "dispatch H ?s0 m = (resp, s1)" by (cases "dispatch H ?s0 m")
  have w: "writer t = writer (transport s)"
    using ReadMessage_writer [of J "transport s"] rd by simp
  have t1: "transport s1 = t" using dispatch_transport [of H ?s0 m] d by simp
  show ?thesis
    using rd d t1 w rm
    by (cases resp)
       (simp_all add: iteration_def WriteResponse_def Write_def afterWrite_def stdout_def)
qed

lemma dispatchAll_preserves:
  assumes di: "\<And>s m. P s \<Longrightarrow> P (snd (dispatch H s m))"
  shows "P s \<Longrightarrow> P (snd (dispatchAll H s msgs))"
proof (induction msgs arbitrary: s)
  case Nil
  then show ?case by simp
next
  case (Cons m ms)
  from Cons.prems have "P (snd (dispatch H s m))" by (rule di)
  then have "P (snd (dispatchAll H (snd (dispatch H s m)) ms))" by (rule Cons.IH)
  then show ?case by (auto split: prod.splits)
qed

lemma afterWrite_preserves:
  assumes tr: "\<And>s t. P s \<Longrightarrow> P (s\<lparr>transport := t\<rparr>)"
  shows "P s \<Longrightarrow> P (snd (afterWrite s w))"
  by (cases w) (auto simp add: afterWrite_def tr split: option.splits)

lemma iteration_preserves:
  assumes P: "P s"
    and tr: "\<And>s t. P s \<Longrightarrow> P (s\<lparr>transport := t\<rparr>)"
    and di: "\<And>s m. P s \<Longrightarrow> P (snd (dispatch H s m))"
    and sh: "\<And>s. P s \<Longrightarrow> Q (setState StateShutdown s)"
  shows "(fst (iteration J H s) = Looping \<and> P (snd (iteration J H s)))
         \<or> (fst (iteration J H s) \<noteq> Looping
            \<and> (P (snd (iteration J H s)) \<or> Q (snd (iteration J H s))))"
proof -
  obtain res t where rd: "ReadMessage J (transport s) = (res, t)"
    by (cases "ReadMessage J (transport s)")
  let ?s0 = "s\<lparr>transport := t\<rparr>"
  have s0: "P ?s0" using P by (rule tr)
  have aw: "\<And>s w. P s \<Longrightarrow> P (snd (afterWrite s w))"
    by (rule afterWrite_preserves) (rule tr)
  show ?thesis
  proof (cases res)
    case (Inl err)
    show ?thesis
    proof (cases "err = EOF")
      case True
      with rd Inl sh [OF s0] show ?thesis by (simp add: iteration_def)
    next
      case False
      let ?w = "WriteResponse (transport ?s0)
                  (NewErrorResponse None (NewParseError (errorText err)))"
      have it: "iteration J H s = afterWrite ?s0 ?w"
        using rd Inl False by (simp add: iteration_def)
      have "P (snd (afterWrite ?s0 ?w))" using s0 by (rule aw)
      with it show ?thesis by (cases "fst (afterWrite ?s0 ?w)") auto
    qed
  next
    case (Inr msgs)
    show ?thesis
    proof (cases "length msgs = 1")
      case True
      obtain resp s1 where d: "dispatch H ?s0 (msgs ! 0) = (resp, s1)"
        by (cases "dispatch H ?s0 (msgs ! 0)")
      have s1: "P s1" using di [OF s0, of "msgs ! 0"] d by simp
      show ?thesis
      proof (cases resp)
        case None
        with rd Inr True d s1 show ?thesis by (simp add: iteration_def)
      next
        case (Some r)
        let ?w = "WriteResponse (transport s1) r"
        have it: "iteration J H s = afterWrite s1 ?w"
          using rd Inr True d Some by (simp add: iteration_def)
        have "P (snd (afterWrite s1 ?w))" using s1 by (rule aw)
        with it show ?thesis by (cases "fst (afterWrite s1 ?w)") auto
      qed
    next
      case False
      obtain rs s1 where d: "dispatchAll H ?s0 msgs = (rs, s1)"
        by (cases "dispatchAll H ?s0 msgs")
      have "P (snd (dispatchAll H ?s0 msgs))"
        by (rule dispatchAll_preserves [where P = P]) (rule di, assumption, rule s0)
      with d have s1: "P s1" by simp
      show ?thesis
      proof (cases "length rs > 0")
        case True
        let ?w = "WriteBatchResponse (transport s1) rs"
        have it: "iteration J H s = afterWrite s1 ?w"
          using rd Inr False d True by (simp add: iteration_def)
        have "P (snd (afterWrite s1 ?w))" using s1 by (rule aw)
        with it show ?thesis by (cases "fst (afterWrite s1 ?w)") auto
      next
        case F2: False
        with rd Inr False d s1 show ?thesis by (simp add: iteration_def)
      qed
    qed
  qed
qed

lemma Run_preserves:
  assumes tr: "\<And>s t. P s \<Longrightarrow> P (s\<lparr>transport := t\<rparr>)"
    and di: "\<And>s m. P s \<Longrightarrow> P (snd (dispatch H s m))"
    and sh: "\<And>s. P s \<Longrightarrow> Q (setState StateShutdown s)"
  shows "P s \<Longrightarrow> P (snd (Run J H n s)) \<or> Q (snd (Run J H n s))"
proof (induction n arbitrary: s)
  case 0
  then show ?case by simp
next
  case (Suc n)
  obtain x s' where it: "iteration J H s = (x, s')" by (cases "iteration J H s")
  from iteration_preserves [of P s H Q J, OF Suc.prems tr di sh] it
  have c: "(x = Looping \<and> P s') \<or> (x \<noteq> Looping \<and> (P s' \<or> Q s'))" by simp
  show ?case
  proof (cases x)
    case (Returned e)
    with it c show ?thesis by simp
  next
    case Looping
    with c have "P s'" by simp
    then have "P (snd (Run J H n s')) \<or> Q (snd (Run J H n s'))" by (rule Suc.IH)
    with it Looping show ?thesis by simp
  qed
qed

text \<open>
  Between two messages no call is in flight: the loop reads the next line only after
  \<^verbatim>\<open>handleToolsCall\<close> has returned and removed its entry.  So a
  \<open>notifications/cancelled\<close> read by the loop never finds an entry to cancel.
\<close>

lemma inflight_dispatch:
  "inflight s = Map.empty \<Longrightarrow> inflight (snd (dispatch H s req)) = Map.empty"
  by (auto simp add: dispatch_defs Let_def split: sum.splits option.splits prod.splits)

lemma no_call_in_flight_between_messages:
  assumes "inflight s = Map.empty"
  shows "inflight (snd (Run J H n s)) = Map.empty"
proof -
  have "inflight (snd (Run J H n s)) = Map.empty \<or> inflight (snd (Run J H n s)) = Map.empty"
    by (rule Run_preserves [where P = "\<lambda>s. inflight s = Map.empty"
          and Q = "\<lambda>s. inflight s = Map.empty"])
       (simp_all add: inflight_dispatch setState_def assms)
  then show ?thesis by simp
qed

lemma cancel_without_call:
  "inflight s = Map.empty \<Longrightarrow> req_Method req = ''notifications/cancelled'' \<Longrightarrow>
   handleNotification s req = s"
  by (simp add: handleNotification_def Let_def split: sum.splits)

section \<open>The lifecycle\<close>

lemma inService_handleNotification: "inService s \<Longrightarrow> inService (handleNotification s req)"
  by (auto simp add: inService_def handleNotification_def setState_def Let_def
      split: sum.splits option.splits)

lemma inService_handleToolsCall: "inService s \<Longrightarrow> inService (snd (handleToolsCall H s req))"
  by (auto simp add: inService_def handleToolsCall_def registerCall_def releaseCall_def Let_def
      split: sum.splits prod.splits)

lemma inService_dispatch: "inService s \<Longrightarrow> inService (snd (dispatch H s req))"
  using inService_handleNotification [of s req] inService_handleToolsCall [of s H req]
  by (auto simp add: dispatch_def Let_def handleInitialize_def MarshalInitializeResult_def
      inService_def setState_def split: prod.splits)

lemma shutDown_setState: "inService s \<Longrightarrow> shutDown (setState StateShutdown s)"
  by (auto simp add: inService_def shutDown_def setState_def)

lemma Run_lifecycle:
  "inService s \<Longrightarrow> inService (snd (Run J H n s)) \<or> shutDown (snd (Run J H n s))"
  by (rule Run_preserves [where P = inService and Q = shutDown])
     (simp_all add: inService_dispatch shutDown_setState, simp add: inService_def)

lemma inService_NewServer: "inService (NewServer t h)"
  by (simp add: inService_def NewServer_def)

lemma initialize_transition:
  "req_ID req \<noteq> None \<Longrightarrow> req_Method req = ''initialize'' \<Longrightarrow> state s = StateCreated \<Longrightarrow>
   state (snd (dispatch H s req)) = StateInitializing"
  by (auto simp add: dispatch_defs Let_def)

lemma initialized_transition:
  "req_ID req = None \<Longrightarrow> req_Method req = ''notifications/initialized'' \<Longrightarrow>
   state s = StateInitializing \<Longrightarrow> state (snd (dispatch H s req)) = StateOperating"
  by (auto simp add: dispatch_defs Let_def)

lemma end_of_input_transition:
  "fst (ReadMessage J (transport s)) = Inl EOF \<Longrightarrow>
   fst (iteration J H s) = Returned None \<and> state (snd (iteration J H s)) = StateShutdown"
  by (cases "ReadMessage J (transport s)") (simp add: iteration_def setState_def)

text \<open>
  Claim C4, as the code has it.  In every run of the server, however long, the values
  the state variable has taken form one of the six lists below: the server walks
  Created, Initializing, Operating in this order, one step at a time, and the end of
  input moves it to Shutdown from wherever it is.  Every such list is a subsequence of
  (Created, Initializing, Operating, Shutdown) that starts with Created, so the state
  never moves backward; its last entry is the present state.  The three steps are
  taken: an \<open>initialize\<close> request moves Created to Initializing, the notification
  \<open>notifications/initialized\<close> moves Initializing to Operating, and at the end of
  input the loop returns nil with the state Shutdown, whatever it was.
\<close>

theorem lifecycle_log:
  "(stateLog (snd (Run J H n (NewServer t h)))
      \<in> {[StateCreated], [StateCreated, StateInitializing],
         [StateCreated, StateInitializing, StateOperating],
         [StateCreated, StateShutdown], [StateCreated, StateInitializing, StateShutdown],
         [StateCreated, StateInitializing, StateOperating, StateShutdown]}
    \<and> subseq (stateLog (snd (Run J H n (NewServer t h))))
         [StateCreated, StateInitializing, StateOperating, StateShutdown]
    \<and> last (stateLog (snd (Run J H n (NewServer t h))))
        = state (snd (Run J H n (NewServer t h))))
   \<and> (req_ID req \<noteq> None \<and> req_Method req = ''initialize'' \<and> state s = StateCreated
        \<longrightarrow> state (snd (dispatch H s req)) = StateInitializing)
   \<and> (req_ID note = None \<and> req_Method note = ''notifications/initialized''
        \<and> state s = StateInitializing
        \<longrightarrow> state (snd (dispatch H s note)) = StateOperating)
   \<and> (fst (ReadMessage J (transport s)) = Inl EOF
        \<longrightarrow> fst (iteration J H s) = Returned None
            \<and> state (snd (iteration J H s)) = StateShutdown)"
proof (intro conjI impI)
  show "stateLog (snd (Run J H n (NewServer t h)))
      \<in> {[StateCreated], [StateCreated, StateInitializing],
         [StateCreated, StateInitializing, StateOperating],
         [StateCreated, StateShutdown], [StateCreated, StateInitializing, StateShutdown],
         [StateCreated, StateInitializing, StateOperating, StateShutdown]}"
    using Run_lifecycle [OF inService_NewServer, of J H n t h]
    by (auto simp add: inService_def shutDown_def)
  then show "subseq (stateLog (snd (Run J H n (NewServer t h))))
         [StateCreated, StateInitializing, StateOperating, StateShutdown]"
    by auto
  show "last (stateLog (snd (Run J H n (NewServer t h))))
        = state (snd (Run J H n (NewServer t h)))"
    using Run_lifecycle [OF inService_NewServer, of J H n t h]
    by (auto simp add: inService_def shutDown_def)
next
  assume "req_ID req \<noteq> None \<and> req_Method req = ''initialize'' \<and> state s = StateCreated"
  then show "state (snd (dispatch H s req)) = StateInitializing"
    by (simp add: initialize_transition)
next
  assume "req_ID note = None \<and> req_Method note = ''notifications/initialized''
        \<and> state s = StateInitializing"
  then show "state (snd (dispatch H s note)) = StateOperating"
    by (simp add: initialized_transition)
next
  assume e: "fst (ReadMessage J (transport s)) = Inl EOF"
  from end_of_input_transition [OF e] show "fst (iteration J H s) = Returned None"
    by (rule conjunct1)
  from end_of_input_transition [OF e] show "state (snd (iteration J H s)) = StateShutdown"
    by (rule conjunct2)
qed

theorem lifecycle_log_witness:
  "stateLog (snd (Run sessionCodec slowHandler 3 (NewServer (stdio handshake) ())))
     \<in> {[StateCreated], [StateCreated, StateInitializing],
        [StateCreated, StateInitializing, StateOperating],
        [StateCreated, StateShutdown], [StateCreated, StateInitializing, StateShutdown],
        [StateCreated, StateInitializing, StateOperating, StateShutdown]}
   \<and> state (snd (dispatch slowHandler (NewServer (stdio []) ()) initializeRequest))
       = StateInitializing
   \<and> state (snd (dispatch slowHandler
                    (snd (dispatch slowHandler (NewServer (stdio []) ()) initializeRequest))
                    initializedNote))
       = StateOperating
   \<and> state (snd (iteration sessionCodec slowHandler operating)) = StateShutdown"
proof -
  note L = lifecycle_log [where J = sessionCodec and H = slowHandler]
  have a: "req_ID initializeRequest \<noteq> None \<and> req_Method initializeRequest = ''initialize''
           \<and> state (NewServer (stdio []) ()) = StateCreated"
    by (simp add: initializeRequest_def NewServer_def)
  have 1: "state (snd (dispatch slowHandler (NewServer (stdio []) ()) initializeRequest))
             = StateInitializing"
    by (rule L [THEN conjunct2, THEN conjunct1, THEN mp, OF a])
  have b: "req_ID initializedNote = None
           \<and> req_Method initializedNote = ''notifications/initialized''
           \<and> state (snd (dispatch slowHandler (NewServer (stdio []) ()) initializeRequest))
               = StateInitializing"
    using 1 by (simp add: initializedNote_def)
  have 2: "state (snd (dispatch slowHandler
                    (snd (dispatch slowHandler (NewServer (stdio []) ()) initializeRequest))
                    initializedNote))
             = StateOperating"
    by (rule L [THEN conjunct2, THEN conjunct2, THEN conjunct1, THEN mp, OF b])
  have c: "fst (ReadMessage sessionCodec (transport operating)) = Inl EOF"
    by (simp add: operating_eq ReadMessage_def Scan_def)
  have 3: "state (snd (iteration sessionCodec slowHandler operating)) = StateShutdown"
    by (rule L [THEN conjunct2, THEN conjunct2, THEN conjunct2, THEN mp, OF c, THEN conjunct2])
  have 0: "stateLog (snd (Run sessionCodec slowHandler 3 (NewServer (stdio handshake) ())))
     \<in> {[StateCreated], [StateCreated, StateInitializing],
        [StateCreated, StateInitializing, StateOperating],
        [StateCreated, StateShutdown], [StateCreated, StateInitializing, StateShutdown],
        [StateCreated, StateInitializing, StateOperating, StateShutdown]}"
    by (rule L [THEN conjunct1, THEN conjunct1])
  from 0 1 2 3 show ?thesis by (intro conjI)
qed

lemma end_of_input_first:
  "stateLog (snd (Run sessionCodec slowHandler 1 (NewServer (stdio []) ())))
     = [StateCreated, StateShutdown]"
  by (simp add: eval_nat_numeral run_defs read_defs dispatch_defs)

text \<open>
  Claim C4 as written asks for a prefix of (Created, Initializing, Operating,
  Shutdown).  When the input ends before any message, the state goes from Created
  straight to Shutdown, and (Created, Shutdown) is not a prefix of that list.
\<close>

theorem shutdown_from_created_is_no_prefix:
  "\<not> prefix (stateLog (snd (Run sessionCodec slowHandler 1 (NewServer (stdio []) ()))))
       [StateCreated, StateInitializing, StateOperating, StateShutdown]"
  unfolding end_of_input_first by simp

section \<open>A failing input stream\<close>

text \<open>One pass that meets an error of the stream: a parse error is written, the loop goes on.\<close>

lemma stream_error_one_pass:
  "upcoming (scanner (transport s)) = Stop (Some e) # rest \<Longrightarrow>
   room (writer (transport s)) = None \<Longrightarrow>
   fst (iteration J H s) = Looping
   \<and> stdout (snd (iteration J H s))
       = stdout s @ [jsonResponse (NewErrorResponse None (NewParseError e))]
   \<and> state (snd (iteration J H s)) = state s"
  by (simp add: iteration_def ReadMessage_def Scan_def WriteResponse_def Write_def afterWrite_def
      errorText_def stdout_def)

lemma failed_stream_loops:
  "upcoming (scanner (transport s)) = [] \<Longrightarrow> final (scanner (transport s)) = Some e \<Longrightarrow>
   room (writer (transport s)) = None \<Longrightarrow>
   Run J H n s =
     (Looping,
      s\<lparr>transport := (transport s)\<lparr>writer := (writer (transport s))
          \<lparr>written := written (writer (transport s))
             @ replicate n (jsonResponse (NewErrorResponse None (NewParseError e)))\<rparr>\<rparr>\<rparr>)"
proof (induction n arbitrary: s)
  case 0
  then show ?case by simp
next
  case (Suc n)
  let ?x = "jsonResponse (NewErrorResponse None (NewParseError e))"
  let ?s' = "s\<lparr>transport := (transport s)\<lparr>writer := (writer (transport s))
          \<lparr>written := written (writer (transport s)) @ [?x]\<rparr>\<rparr>\<rparr>"
  have it: "iteration J H s = (Looping, ?s')"
    using Suc.prems
    by (simp add: iteration_def ReadMessage_def Scan_def WriteResponse_def Write_def afterWrite_def
        errorText_def)
  have "Run J H n ?s' = (Looping,
      ?s'\<lparr>transport := (transport ?s')\<lparr>writer := (writer (transport ?s'))
          \<lparr>written := written (writer (transport ?s')) @ replicate n ?x\<rparr>\<rparr>\<rparr>)"
    by (rule Suc.IH) (use Suc.prems in simp_all)
  with it show ?case by (simp add: replicate_app_Cons_same)
qed

text \<open>
  Claim C3 says a failure of the input stream ends the main loop with an error.  In
  the code every error of \<^verbatim>\<open>ReadMessage\<close> other than \<^verbatim>\<open>io.EOF\<close> is answered with a
  \<open>-32700\<close> response under the identifier \<open>null\<close>, and the loop goes on.  Here the
  stream has failed with error \<open>e\<close> (a stopped scanner reports it at every call) and
  the writer accepts everything: after \<open>n\<close> passes, for every \<open>n\<close>, the loop has not
  returned, the state is still Created, and \<open>n\<close> parse-error lines have been written.
\<close>

theorem stream_failure_answered_as_parse_error:
  "Run J H n (NewServer (NewTransport \<lparr>upcoming = [], final = Some e\<rparr>
                                      \<lparr>written = [], room = None\<rparr>) h)
   = (Looping,
      NewServer (NewTransport \<lparr>upcoming = [], final = Some e\<rparr>
                   \<lparr>written = replicate n
                      (JObj [(''jsonrpc'', JStr ''2.0''), (''id'', JNull),
                             (''error'', JObj [(''code'', JInt (- 32700)),
                                               (''message'', JStr e)])]),
                    room = None\<rparr>) h)"
  by (simp add: failed_stream_loops NewServer_def NewTransport_def jsonResponse_def
      jsonError_def rawOrNull_def omitEmpty_def NewErrorResponse_def NewParseError_def
      CodeParseError_def)

section \<open>Batches\<close>

text \<open>
  Claim C2 says a batch with \<open>k \<ge> 1\<close> requests is answered with one line holding an
  array of \<open>k\<close> responses, also for \<open>k = 1\<close>.  The loop tells a batch from a single
  message by the number of requests read, so the line
  \<^verbatim>\<open>[{"jsonrpc":"2.0","id":1,"method":"ping"}]\<close>, an array of one request, is answered
  with the bare response object, not with an array holding it.  (So is every line
  read as one request, lemma \<open>read_of_one\<close>; a line read as zero or as several
  messages is handled as the claim says, lemma \<open>batch_of_several\<close>.)
\<close>

theorem batch_of_one_gets_bare_response:
  "fst (ReadMessage sessionCodec (stdio [linePingBatch])) = Inr [pingRequest (JInt 1)]
   \<and> stdout (snd (iteration sessionCodec slowHandler (NewServer (stdio [linePingBatch]) ())))
     = [JObj [(''jsonrpc'', JStr ''2.0''), (''id'', JInt 1), (''result'', JObj [])]]
   \<and> stdout (snd (iteration sessionCodec slowHandler (NewServer (stdio [linePingBatch]) ())))
     \<noteq> [JArr [JObj [(''jsonrpc'', JStr ''2.0''), (''id'', JInt 1), (''result'', JObj [])]]]"
  by (simp add: run_defs read_defs line_defs dispatch_defs write_defs pingRequest_def)

section \<open>Cancellation\<close>

lemma cancelled_session:
  "Run sessionCodec slowHandler 5
      (NewServer (stdio [lineInitialize, lineInitialized, lineCall7, lineCancel7]) ())
   = (Returned None,
      \<lparr>transport = \<lparr>scanner = \<lparr>upcoming = [], final = None\<rparr>,
                    writer = \<lparr>written = [jsonResponse (NewResponse (Some (JInt 1))
                                                 (Some jsonInitializeResult)),
                                         jsonResponse (NewResponse (Some (JInt 7))
                                                 (Some (jsonToolResult (Some slowDone))))],
                              room = None\<rparr>\<rparr>,
      handler = (), state = StateShutdown, inflight = Map.empty, cancelled = {0},
      contexts = 1,
      stateLog = [StateCreated, StateInitializing, StateOperating, StateShutdown]\<rparr>)"
  by (simp add: eval_nat_numeral run_defs read_defs line_defs dispatch_defs write_defs)

lemma cancelled_during_call:
  "(case registerCall (req_ID callRequest) operating of
      (ctx, s1) \<Rightarrow>
        inflight s1 (Some (JInt 7)) = Some ctx
        \<and> inflight (handleNotification s1 cancelRequest) (Some (JInt 7)) = None
        \<and> ctx \<in> cancelled (handleNotification s1 cancelRequest)
        \<and> callResponse callRequest
             (fst (CallTool slowHandler (handler (handleNotification s1 cancelRequest))
                     ''slow'' (Some (JObj []))))
           = NewResponse (Some (JInt 7)) (Some (jsonToolResult (Some slowDone))))"
  by (simp add: operating_eq callRequest_def cancelRequest_def dispatch_defs slowHandler_def)

text \<open>
  Claim C1 says a \<open>tools/call\<close> whose identifier is cancelled before the tool has
  completed gets no response.  The client sends the handshake, a call of the tool
  \<open>slow\<close> under identifier 7 and at once \<open>notifications/cancelled\<close> for 7.  The loop
  reads the cancellation only after the call has returned and its response is
  written, so the output holds a response for 7.  And were the cancellation handled
  while the tool runs (the entry is found and removed, the context cancelled), the
  response built after the tool returns is the same: nothing between the tool's
  return and the response looks at the table or the context.
\<close>

theorem cancelled_call_is_answered:
  "stdout (snd (Run sessionCodec slowHandler 5
      (NewServer (stdio [lineInitialize, lineInitialized, lineCall7, lineCancel7]) ())))
     = [jsonResponse (NewResponse (Some (JInt 1)) (Some jsonInitializeResult)),
        JObj [(''jsonrpc'', JStr ''2.0''), (''id'', JInt 7),
              (''result'', JObj [(''content'', JArr [JObj [(''type'', JStr ''text''),
                                                            (''text'', JStr ''done'')]]),
                                 (''isError'', JBool False)])]]
   \<and> (case registerCall (req_ID callRequest) operating of
        (ctx, s1) \<Rightarrow>
          inflight s1 (Some (JInt 7)) = Some ctx
          \<and> inflight (handleNotification s1 cancelRequest) (Some (JInt 7)) = None
          \<and> ctx \<in> cancelled (handleNotification s1 cancelRequest)
          \<and> resp_ID (callResponse callRequest
               (fst (CallTool slowHandler (handler (handleNotification s1 cancelRequest))
                       ''slow'' (Some (JObj []))))) = Some (JInt 7))"
  using cancelled_during_call
  by (simp add: cancelled_session stdout_def jsonResponse_def rawOrNull_def omitEmpty_def
      NewResponse_def jsonToolResult_def jsonContentBlock_def slowDone_def split: prod.splits)

end
